theory Spec2Isabelle
  imports Complex_Main "HOL-Library.Signed_Division"
begin

section \<open>The learning-data feature generator\<close>

text \<open>
  A shallow embedding of \<^verbatim>\<open>modules/planning/pipeline/feature_generator.cc\<close>.
  The protobuf messages, the member declarations of the class and the gflags live in
  files that are not part of the sources at hand; the parts of them that the functions
  below read or write are declared here as records.

  Conventions of the embedding:
  \<^item> a \<^verbatim>\<open>double\<close> is a \<^typ>\<open>real\<close> (exact arithmetic, no rounding);
  \<^item> an \<^verbatim>\<open>int\<close> is an unbounded \<^typ>\<open>int\<close>: the two counters only grow by
    the number of frames and files, and signed overflow is undefined in C++;
  \<^item> a member \<^verbatim>\<open>name_\<close> is the field \<open>name\<close> (no trailing underscore);
  \<^item> behaviour that C++ leaves undefined is a value of type \<open>fault\<close>;
  \<^item> writing a file and logging are recorded in the state, in the order they happen.
\<close>

subsection \<open>Messages\<close>

text \<open>
  Modelled from the spec: the protobuf messages of the localization, chassis and
  learning-data packages, whose declarations are not among the sources. A record has the
  fields that the source reads or writes, under the names of the accessors; a position, a
  velocity and an acceleration are vectors of three components \<open>x\<close>, \<open>y\<close>, \<open>z\<close>. The
  fields of a path point and of a trajectory point (\<open>x\<close>, \<open>y\<close>, \<open>z\<close>, \<open>theta\<close>, \<open>v\<close>,
  \<open>a\<close>) and those of the two feature messages carry a prefix here, since a field of a
  record is a constant of the theory.
\<close>

record Point3D =
  pt_x :: real
  pt_y :: real
  pt_z :: real

record Pose =
  position :: Point3D
  heading :: real
  linear_velocity :: Point3D
  linear_acceleration :: Point3D
  angular_velocity :: Point3D

record LocalizationEstimate =
  pose :: Pose

text \<open>The gear location is an enum of the chassis message; its numeric value is kept.\<close>

type_synonym GearPosition = int

record Chassis =
  speed_mps :: real
  throttle_percentage :: real
  brake_percentage :: real
  steering_percentage :: real
  gear_location :: GearPosition

record PathPoint =
  pp_x :: real
  pp_y :: real
  pp_z :: real
  pp_theta :: real

record TrajectoryPoint =
  path_point :: PathPoint
  tp_v :: real
  tp_a :: real

record LocalizationFeature =
  lf_position :: Point3D
  lf_heading :: real
  lf_linear_velocity :: Point3D
  lf_linear_acceleration :: Point3D
  lf_angular_velocity :: Point3D

record ChassisFeature =
  cf_speed_mps :: real
  cf_throttle_percentage :: real
  cf_brake_percentage :: real
  cf_steering_percentage :: real
  cf_gear_location :: GearPosition

text \<open>
  A frame as \<^verbatim>\<open>add_learning_data()\<close> creates it has neither feature set and no
  trajectory point.
\<close>

record LearningDataFrame =
  localization_feature :: "LocalizationFeature option"
  chassis_feature :: "ChassisFeature option"
  label_trajectory_points :: "TrajectoryPoint list"

definition new_frame :: LearningDataFrame where
  "new_frame =
     \<lparr>localization_feature = None, chassis_feature = None, label_trajectory_points = []\<rparr>"

subsection \<open>Flags and state\<close>

record flags =
  FLAGS_planning_data_dir :: string
  FLAGS_learning_data_frame_label_sample_interval :: int
  FLAGS_learning_data_frame_num_per_file :: int
  FLAGS_localization_sample_interval_for_trajectory_point :: int
  FLAGS_localization_move_window_step :: int
  FLAGS_enable_binary_learning_data :: bool

datatype fault =
  ModuloByZero
  | PopFrontOnEmptyList
  | DanglingFramePointer

datatype log_line =
  AERROR string
  | AINFO string int

text \<open>One call of \<^verbatim>\<open>SetProtoToBinaryFile\<close> or \<^verbatim>\<open>SetProtoToASCIIFile\<close>.\<close>

record file_write =
  file_name :: string
  binary :: bool
  content :: "LearningDataFrame list"

text \<open>
  \<open>learning_data\<close> is the repeated field of the \<^verbatim>\<open>LearningData\<close> message;
  \<open>learning_data_frame\<close> is the pointer to one of its elements, kept as the element's
  position (\<open>None\<close> is \<^verbatim>\<open>nullptr\<close>).
\<close>

record FeatureGenerator =
  learning_data :: "LearningDataFrame list"
  learning_data_frame :: "nat option"
  localization_for_label :: "LocalizationEstimate list"
  learning_data_file_index :: int
  total_learning_data_frame_num :: int
  written :: "file_write list"
  logged :: "log_line list"

text \<open>
  Modelled from the spec: the member initialisers of \<^verbatim>\<open>feature_generator.h\<close>, which
  is not among the sources. The file index starts at 0, the total at 0, the window and
  the batch are empty and no frame is open before \<open>Init\<close>.
\<close>

definition initial_state :: FeatureGenerator where
  "initial_state =
     \<lparr>learning_data = [], learning_data_frame = None, localization_for_label = [],
      learning_data_file_index = 0, total_learning_data_frame_num = 0,
      written = [], logged = []\<rparr>"

subsection \<open>Operations\<close>

text \<open>\<^verbatim>\<open>learning_data_.add_learning_data()\<close>: appends a frame and returns its address.\<close>

definition add_learning_data :: "LearningDataFrame list \<Rightarrow> LearningDataFrame list \<times> nat" where
  "add_learning_data ld = (ld @ [new_frame], length ld)"

definition Init :: "FeatureGenerator \<Rightarrow> FeatureGenerator" where
  "Init s =
     (let (ld, p) = add_learning_data (learning_data s)
      in s\<lparr>learning_data := ld, learning_data_frame := Some p\<rparr>)"

text \<open>\<^verbatim>\<open>absl::StrCat\<close> of an \<^verbatim>\<open>int\<close>: its decimal digits, with a sign when negative.\<close>

fun digits :: "nat \<Rightarrow> string" where
  "digits n =
     (if n < 10 then [''0123456789'' ! n]
      else digits (n div 10) @ [''0123456789'' ! (n mod 10)])"

definition StrCat_int :: "int \<Rightarrow> string" where
  "StrCat_int i = (if i < 0 then CHR ''-'' # digits (nat (- i)) else digits (nat i))"

definition data_file_name :: "flags \<Rightarrow> int \<Rightarrow> string" where
  "data_file_name cfg idx =
     FLAGS_planning_data_dir cfg @ ''/learning_data.'' @ StrCat_int idx @ ''.bin''"

definition WriteOutLearningData ::
  "flags \<Rightarrow> LearningDataFrame list \<Rightarrow> string \<Rightarrow> file_write" where
  "WriteOutLearningData cfg ld name =
     (if FLAGS_enable_binary_learning_data cfg
      then \<lparr>file_name = name, binary = True, content = ld\<rparr>
      else \<lparr>file_name = name, binary = False, content = ld\<rparr>)"

definition Close :: "flags \<Rightarrow> FeatureGenerator \<Rightarrow> FeatureGenerator" where
  "Close cfg s =
     (let name = data_file_name cfg (learning_data_file_index s);
          total = total_learning_data_frame_num s + int (length (learning_data s))
      in s\<lparr>total_learning_data_frame_num := total,
            written := written s @ [WriteOutLearningData cfg (learning_data s) name],
            learning_data_file_index := learning_data_file_index s + 1,
            logged := logged s @ [AINFO ''Total learning_data_frame number:'' total]\<rparr>)"

definition trajectory_point_of :: "LocalizationEstimate \<Rightarrow> TrajectoryPoint" where
  "trajectory_point_of le =
     (let p = pose le
      in \<lparr>path_point =
            \<lparr>pp_x = pt_x (position p), pp_y = pt_y (position p), pp_z = pt_z (position p),
             pp_theta = heading p\<rparr>,
          tp_v = sqrt (pt_x (linear_velocity p) * pt_x (linear_velocity p) +
                       pt_y (linear_velocity p) * pt_y (linear_velocity p)),
          tp_a = sqrt (pt_x (linear_acceleration p) * pt_x (linear_acceleration p) +
                       pt_y (linear_acceleration p) * pt_y (linear_acceleration p))\<rparr>)"

text \<open>
  The loop of \<open>GenerateTrajectoryLabel\<close>; \<open>i\<close> is the counter's value before the
  iteration. The remainder of C++ truncates towards zero (\<open>smod\<close>), and a zero divisor
  is undefined.
\<close>

fun label_loop :: "flags \<Rightarrow> int \<Rightarrow> LocalizationEstimate list \<Rightarrow> LearningDataFrame
    \<Rightarrow> fault + LearningDataFrame" where
  "label_loop cfg i [] f = Inr f"
| "label_loop cfg i (le # les) f =
     (if FLAGS_localization_sample_interval_for_trajectory_point cfg = 0 then Inl ModuloByZero
      else if (i + 1) smod FLAGS_localization_sample_interval_for_trajectory_point cfg \<noteq> 0
        then label_loop cfg (i + 1) les f
      else label_loop cfg (i + 1) les
        (f\<lparr>label_trajectory_points := label_trajectory_points f @ [trajectory_point_of le]\<rparr>))"

definition GenerateTrajectoryLabel ::
  "flags \<Rightarrow> LocalizationEstimate list \<Rightarrow> LearningDataFrame \<Rightarrow> fault + LearningDataFrame" where
  "GenerateTrajectoryLabel cfg les f = label_loop cfg (- 1) les f"

text \<open>\<^verbatim>\<open>pop_front\<close>, \<open>n\<close> times; undefined on an empty list.\<close>

fun pop_front_times :: "nat \<Rightarrow> 'a list \<Rightarrow> fault + 'a list" where
  "pop_front_times 0 xs = Inr xs"
| "pop_front_times (Suc n) [] = Inl PopFrontOnEmptyList"
| "pop_front_times (Suc n) (x # xs) = pop_front_times n xs"

definition localization_feature_of :: "LocalizationEstimate \<Rightarrow> LocalizationFeature" where
  "localization_feature_of le =
     \<lparr>lf_position = position (pose le), lf_heading = heading (pose le),
      lf_linear_velocity = linear_velocity (pose le),
      lf_linear_acceleration = linear_acceleration (pose le),
      lf_angular_velocity = angular_velocity (pose le)\<rparr>"

text \<open>The two tests of \<open>OnLocalization\<close>, on the state they are evaluated in.\<close>

definition label_due :: "flags \<Rightarrow> FeatureGenerator \<Rightarrow> bool" where
  "label_due cfg s \<longleftrightarrow>
     int (length (localization_for_label s)) \<ge> FLAGS_learning_data_frame_label_sample_interval cfg"

definition file_due :: "flags \<Rightarrow> FeatureGenerator \<Rightarrow> bool" where
  "file_due cfg s \<longleftrightarrow>
     int (length (learning_data s)) \<ge> FLAGS_learning_data_frame_num_per_file cfg"

text \<open>Lines 124 to 128: label the frame at \<open>p\<close>, open the next one, move the window.\<close>

definition close_frame :: "flags \<Rightarrow> nat \<Rightarrow> FeatureGenerator \<Rightarrow> fault + FeatureGenerator" where
  "close_frame cfg p s =
     (case GenerateTrajectoryLabel cfg (localization_for_label s) (learning_data s ! p) of
        Inl e \<Rightarrow> Inl e
      | Inr f \<Rightarrow>
          (let (ld, q) = add_learning_data ((learning_data s)[p := f])
           in case pop_front_times (nat (FLAGS_localization_move_window_step cfg))
                     (localization_for_label s) of
                Inl e \<Rightarrow> Inl e
              | Inr w \<Rightarrow>
                  Inr (s\<lparr>learning_data := ld, learning_data_frame := Some q,
                         localization_for_label := w\<rparr>)))"

text \<open>Lines 133 to 140: write the batch, count it, clear it, open a frame.\<close>

definition flush :: "flags \<Rightarrow> FeatureGenerator \<Rightarrow> FeatureGenerator" where
  "flush cfg s =
     (let name = data_file_name cfg (learning_data_file_index s);
          (ld, q) = add_learning_data []
      in s\<lparr>written := written s @ [WriteOutLearningData cfg (learning_data s) name],
            total_learning_data_frame_num :=
              total_learning_data_frame_num s + int (length (learning_data s)),
            learning_data := ld,
            learning_data_file_index := learning_data_file_index s + 1,
            learning_data_frame := Some q\<rparr>)"

text \<open>Lines 113 to 120: copy the pose into the frame at \<open>p\<close> and append the sample.\<close>

definition record_localization ::
  "nat \<Rightarrow> LocalizationEstimate \<Rightarrow> FeatureGenerator \<Rightarrow> FeatureGenerator" where
  "record_localization p le s =
     s\<lparr>learning_data := (learning_data s)
           [p := (learning_data s ! p)\<lparr>localization_feature := Some (localization_feature_of le)\<rparr>],
       localization_for_label := localization_for_label s @ [le]\<rparr>"

definition OnLocalization ::
  "flags \<Rightarrow> LocalizationEstimate \<Rightarrow> FeatureGenerator \<Rightarrow> fault + FeatureGenerator" where
  "OnLocalization cfg le s =
     (case learning_data_frame s of
        None \<Rightarrow> Inr (s\<lparr>logged := logged s @ [AERROR ''learning_data_frame_ pointer is nullptr'']\<rparr>)
      | Some p \<Rightarrow>
          if p \<ge> length (learning_data s) then Inl DanglingFramePointer
          else
            (let s1 = record_localization p le s
             in case (if label_due cfg s1 then close_frame cfg p s1 else Inr s1) of
                  Inl e \<Rightarrow> Inl e
                | Inr s2 \<Rightarrow> Inr (if file_due cfg s2 then flush cfg s2 else s2)))"

definition chassis_feature_of :: "Chassis \<Rightarrow> ChassisFeature" where
  "chassis_feature_of chassis =
     \<lparr>cf_speed_mps = speed_mps chassis,
      cf_throttle_percentage = throttle_percentage chassis,
      cf_brake_percentage = brake_percentage chassis,
      cf_steering_percentage = steering_percentage chassis,
      cf_gear_location = gear_location chassis\<rparr>"

definition OnChassis :: "Chassis \<Rightarrow> FeatureGenerator \<Rightarrow> fault + FeatureGenerator" where
  "OnChassis chassis s =
     (case learning_data_frame s of
        None \<Rightarrow> Inr (s\<lparr>logged := logged s @ [AERROR ''learning_data_frame_ pointer is nullptr'']\<rparr>)
      | Some p \<Rightarrow>
          if p \<ge> length (learning_data s) then Inl DanglingFramePointer
          else Inr (s\<lparr>learning_data := (learning_data s)
                        [p := (learning_data s ! p)
                           \<lparr>chassis_feature := Some (chassis_feature_of chassis)\<rparr>]\<rparr>))"

text \<open>
  The loop of \<open>ProcessOfflineData\<close> over the messages of a record. Reading the record
  and parsing a message are the reader's and protobuf's work: a message comes decoded,
  and one of another channel, or one that does not parse, is \<open>Skipped\<close>.
\<close>

datatype RecordMessage =
  LocalizationMsg LocalizationEstimate
  | ChassisMsg Chassis
  | Skipped

fun ProcessOfflineData ::
  "flags \<Rightarrow> RecordMessage list \<Rightarrow> FeatureGenerator \<Rightarrow> fault + FeatureGenerator" where
  "ProcessOfflineData cfg [] s = Inr s"
| "ProcessOfflineData cfg (LocalizationMsg le # ms) s =
     (case OnLocalization cfg le s of Inl e \<Rightarrow> Inl e | Inr s' \<Rightarrow> ProcessOfflineData cfg ms s')"
| "ProcessOfflineData cfg (ChassisMsg c # ms) s =
     (case OnChassis c s of Inl e \<Rightarrow> Inl e | Inr s' \<Rightarrow> ProcessOfflineData cfg ms s')"
| "ProcessOfflineData cfg (Skipped # ms) s = ProcessOfflineData cfg ms s"

subsection \<open>Notions the properties are stated with\<close>

text \<open>
  Stride sampling as the specification words it: of a sequence of length \<open>len\<close>, the
  elements at the indices \<open>0, n, 2n, \<dots>\<close>, of which there are \<open>\<lceil>len / n\<rceil>\<close>.
\<close>

definition stride_indices :: "nat \<Rightarrow> nat \<Rightarrow> nat list" where
  "stride_indices n len = map (\<lambda>k. k * n) [0..<(len + n - 1) div n]"

definition stride_sample :: "nat \<Rightarrow> 'a list \<Rightarrow> 'a list" where
  "stride_sample n xs = map (\<lambda>j. xs ! j) (stride_indices n (length xs))"

text \<open>
  What the loop of \<open>GenerateTrajectoryLabel\<close> selects, as a function of the list:
  \<open>c\<close> is the index of the head.
\<close>

fun every_nth :: "nat \<Rightarrow> nat \<Rightarrow> 'a list \<Rightarrow> 'a list" where
  "every_nth n c [] = []"
| "every_nth n c (x # xs) =
     (if c mod n = 0 then x # every_nth n (Suc c) xs else every_nth n (Suc c) xs)"

text \<open>The Euclidean norm of a vector of three components, as the specification words it.\<close>

definition euclidean_norm :: "Point3D \<Rightarrow> real" where
  "euclidean_norm u = sqrt ((pt_x u)\<^sup>2 + (pt_y u)\<^sup>2 + (pt_z u)\<^sup>2)"

text \<open>
  A frame is closed once \<open>GenerateTrajectoryLabel\<close> has run on it. The call appends the
  point of the window's first sample at least, and nothing else writes trajectory points,
  so the closed frames are those that have trajectory points. The lemmas
  \<open>OnLocalization_close\<close>, \<open>OnLocalization_no_close\<close> and \<open>OnChassis_closed\<close> below
  justify the reading: a call adds exactly one closed frame when the test of line 122
  succeeds, and none otherwise.
\<close>

definition frame_closed :: "LearningDataFrame \<Rightarrow> bool" where
  "frame_closed f \<longleftrightarrow> label_trajectory_points f \<noteq> []"

text \<open>A batch of closed frames followed by one frame that is not closed.\<close>

definition batch_shape :: "LearningDataFrame list \<Rightarrow> bool" where
  "batch_shape ld \<longleftrightarrow> ld \<noteq> [] \<and> (\<forall>f \<in> set (butlast ld). frame_closed f) \<and> \<not> frame_closed (last ld)"

text \<open>The frames of the files written so far, and with them those still in memory.\<close>

definition flushed :: "FeatureGenerator \<Rightarrow> LearningDataFrame list" where
  "flushed s = concat (map content (written s))"

definition produced :: "FeatureGenerator \<Rightarrow> LearningDataFrame list" where
  "produced s = flushed s @ learning_data s"

text \<open>The invariant of the batch writer in every run that starts with \<open>Init\<close>.\<close>

definition writer_inv :: "FeatureGenerator \<Rightarrow> bool" where
  "writer_inv s \<longleftrightarrow>
     batch_shape (learning_data s) \<and>
     learning_data_frame s = Some (length (learning_data s) - 1) \<and>
     (\<forall>w \<in> set (written s). batch_shape (content w)) \<and>
     total_learning_data_frame_num s = int (length (flushed s)) \<and>
     learning_data_file_index s = int (length (written s))"

fun localization_samples :: "RecordMessage list \<Rightarrow> LocalizationEstimate list" where
  "localization_samples [] = []"
| "localization_samples (LocalizationMsg le # ms) = le # localization_samples ms"
| "localization_samples (m # ms) = localization_samples ms"


subsection \<open>Example inputs\<close>

definition sample_at :: "real \<Rightarrow> real \<Rightarrow> LocalizationEstimate" where
  "sample_at px vz =
     \<lparr>pose = \<lparr>position = \<lparr>pt_x = px, pt_y = 0, pt_z = 0\<rparr>, heading = 0,
        linear_velocity = \<lparr>pt_x = 0, pt_y = 0, pt_z = vz\<rparr>,
        linear_acceleration = \<lparr>pt_x = 0, pt_y = 0, pt_z = vz\<rparr>,
        angular_velocity = \<lparr>pt_x = 0, pt_y = 0, pt_z = 0\<rparr>\<rparr>\<rparr>"

definition chassis_at :: "real \<Rightarrow> Chassis" where
  "chassis_at v =
     \<lparr>speed_mps = v, throttle_percentage = 0, brake_percentage = 0,
      steering_percentage = 0, gear_location = 1\<rparr>"

text \<open>Label interval, frames per file, stride and window step, in this order.\<close>

definition example_flags :: "int \<Rightarrow> int \<Rightarrow> int \<Rightarrow> int \<Rightarrow> bool \<Rightarrow> flags" where
  "example_flags t_label f_max t_stride w_step bin =
     \<lparr>FLAGS_planning_data_dir = ''d'',
      FLAGS_learning_data_frame_label_sample_interval = t_label,
      FLAGS_learning_data_frame_num_per_file = f_max,
      FLAGS_localization_sample_interval_for_trajectory_point = t_stride,
      FLAGS_localization_move_window_step = w_step,
      FLAGS_enable_binary_learning_data = bin\<rparr>"

section \<open>Auxiliary facts\<close>

subsection \<open>Label selection and window eviction\<close>

lemma pop_front_times_eq:
  "pop_front_times n xs = (if n \<le> length xs then Inr (drop n xs) else Inl PopFrontOnEmptyList)"
  by (induction n xs rule: pop_front_times.induct) auto

lemma smod_nonneg:
  fixes a n :: int
  assumes "0 \<le> a" "n \<noteq> 0"
  shows "a smod n = 0 \<longleftrightarrow> nat a mod nat \<bar>n\<bar> = 0"
proof -
  have "a smod n = 0 \<longleftrightarrow> \<bar>a\<bar> mod \<bar>n\<bar> = 0"
    using assms by (auto simp: smod_int_alt_def sgn_if)
  also have "\<dots> \<longleftrightarrow> a mod \<bar>n\<bar> = 0" using assms by simp
  also have "\<dots> \<longleftrightarrow> nat a mod nat \<bar>n\<bar> = 0"
    using assms by auto
  finally show ?thesis .
qed

lemma label_loop_eq:
  assumes "FLAGS_localization_sample_interval_for_trajectory_point cfg \<noteq> 0" "0 \<le> i + 1"
  shows "label_loop cfg i les f =
     Inr (f\<lparr>label_trajectory_points := label_trajectory_points f @
            map trajectory_point_of
              (every_nth (nat \<bar>FLAGS_localization_sample_interval_for_trajectory_point cfg\<bar>)
                 (nat (i + 1)) les)\<rparr>)"
  using assms
proof (induction les arbitrary: i f)
  case Nil
  then show ?case by simp
next
  case (Cons le les)
  have s: "Suc (nat (i + 1)) = nat (i + 1 + 1)" using Cons.prems by simp
  have "0 \<le> (i + 1) + 1" using Cons.prems by simp
  note IH = Cons.IH [OF Cons.prems(1) this]
  show ?case
    using Cons.prems smod_nonneg [of "i + 1" "FLAGS_localization_sample_interval_for_trajectory_point cfg"]
    by (simp add: IH s)
qed

lemma label_loop_zero:
  "FLAGS_localization_sample_interval_for_trajectory_point cfg = 0 \<Longrightarrow> les \<noteq> [] \<Longrightarrow>
   label_loop cfg i les f = Inl ModuloByZero"
  by (cases les) auto

lemma every_nth_filter:
  "every_nth n c xs = map (\<lambda>j. xs ! j) (filter (\<lambda>j. (c + j) mod n = 0) [0..<length xs])"
proof (induction xs arbitrary: c)
  case Nil
  then show ?case by simp
next
  case (Cons x xs)
  have u: "[0..<length (x # xs)] = 0 # map Suc [0..<length xs]"
    by (simp add: upt_conv_Cons map_Suc_upt del: upt_Suc)
  show ?case
    unfolding u by (simp add: Cons.IH filter_map comp_def del: upt_Suc)
qed

lemma ceil_div_nat:
  fixes m n :: nat
  assumes "0 < n"
  shows "(m + n - 1) div n = (if m mod n = 0 then m div n else Suc (m div n))"
proof -
  define q r where "q = m div n" and "r = m mod n"
  have m: "m = r + q * n" and r: "r < n" using assms by (simp_all add: q_def r_def)
  show ?thesis
  proof (cases "r = 0")
    case True
    have "m + n - 1 = (n - 1) + q * n" using m True assms by simp
    then have "(m + n - 1) div n = ((n - 1) + q * n) div n" by simp
    also have "\<dots> = q" using assms by (subst div_mult_self1) simp_all
    finally show ?thesis using True by (simp add: q_def r_def)
  next
    case False
    have "m + n - 1 = (r - 1) + Suc q * n" using m False assms by simp
    then have "(m + n - 1) div n = ((r - 1) + Suc q * n) div n" by simp
    also have "\<dots> = Suc q" using assms r by (subst div_mult_self1) simp_all
    finally show ?thesis using False by (simp add: q_def r_def)
  qed
qed

lemma filter_multiples:
  assumes "0 < n"
  shows "filter (\<lambda>j. j mod n = 0) [0..<m] = map (\<lambda>k. k * n) [0..<(m + n - 1) div n]"
proof (induction m)
  case 0
  with assms show ?case by simp
next
  case (Suc m)
  have c: "(Suc m + n - 1) div n = (if m mod n = 0 then Suc ((m + n - 1) div n) else (m + n - 1) div n)"
    using ceil_div_nat [OF assms, of m] ceil_div_nat [OF assms, of "Suc m"] assms
    by (auto simp: mod_Suc split: if_splits)
  have d: "m mod n = 0 \<Longrightarrow> (m + n - 1) div n * n = m"
    using ceil_div_nat [OF assms, of m] by auto
  show ?case
    using Suc d by (simp only: c upt_Suc filter_append map_append) (simp add: d)
qed

lemma every_nth_stride_sample: "0 < n \<Longrightarrow> every_nth n 0 xs = stride_sample n xs"
  by (simp add: every_nth_filter stride_sample_def stride_indices_def filter_multiples)

lemma length_stride_sample: "length (stride_sample n xs) = (length xs + n - 1) div n"
  by (simp add: stride_sample_def stride_indices_def)

lemma ceiling_div_nat:
  fixes n m :: nat
  assumes "0 < n"
  shows "\<lceil>real m / real n\<rceil> = int ((m + n - 1) div n)"
proof -
  have "\<lceil>real m / real n\<rceil> = \<lceil>of_int (int m) / (of_int (int n) :: real)\<rceil>" by simp
  also have "\<dots> = - (- int m div int n)" by (rule ceiling_divide_eq_div)
  also have "\<dots> = int ((m + n - 1) div n)"
    using assms ceil_div_nat [of n m] by (simp add: zdiv_zminus1_eq_if flip: of_nat_mod of_nat_div)
  finally show ?thesis .
qed

subsection \<open>The phases of \<open>OnLocalization\<close> and the writer's invariant\<close>

lemma GenerateTrajectoryLabel_eq:
  assumes "FLAGS_localization_sample_interval_for_trajectory_point cfg \<noteq> 0"
  shows "GenerateTrajectoryLabel cfg les f =
     Inr (f\<lparr>label_trajectory_points := label_trajectory_points f @
            map trajectory_point_of
              (stride_sample (nat \<bar>FLAGS_localization_sample_interval_for_trajectory_point cfg\<bar>) les)\<rparr>)"
  using assms label_loop_eq [OF assms, of "- 1" les f]
  by (simp add: GenerateTrajectoryLabel_def every_nth_stride_sample)

lemma stride_sample_nonempty: "0 < n \<Longrightarrow> xs \<noteq> [] \<Longrightarrow> stride_sample n xs \<noteq> []"
  by (cases xs) (simp_all flip: every_nth_stride_sample)

lemma close_frame_eq:
  assumes "FLAGS_localization_sample_interval_for_trajectory_point cfg \<noteq> 0"
  shows "close_frame cfg p s =
     (if nat (FLAGS_localization_move_window_step cfg) \<le> length (localization_for_label s)
      then Inr (s\<lparr>learning_data :=
                  (learning_data s)
                    [p := (learning_data s ! p)
                       \<lparr>label_trajectory_points := label_trajectory_points (learning_data s ! p) @
                          map trajectory_point_of
                            (stride_sample
                               (nat \<bar>FLAGS_localization_sample_interval_for_trajectory_point cfg\<bar>)
                               (localization_for_label s))\<rparr>] @ [new_frame],
                learning_data_frame := Some (length (learning_data s)),
                localization_for_label :=
                  drop (nat (FLAGS_localization_move_window_step cfg)) (localization_for_label s)\<rparr>)
      else Inl PopFrontOnEmptyList)"
  by (simp add: close_frame_def GenerateTrajectoryLabel_eq [OF assms] add_learning_data_def
      pop_front_times_eq)

lemma close_frame_zero:
  assumes "FLAGS_localization_sample_interval_for_trajectory_point cfg = 0"
    "localization_for_label s \<noteq> []"
  shows "close_frame cfg p s = Inl ModuloByZero"
  using assms by (simp add: close_frame_def GenerateTrajectoryLabel_def label_loop_zero)

lemma batch_shape_new [simp]: "batch_shape [new_frame]"
  by (simp add: batch_shape_def frame_closed_def new_frame_def)

lemma batch_shape_update_last:
  assumes "batch_shape ld" "label_trajectory_points f = label_trajectory_points (last ld)"
  shows "batch_shape (ld[length ld - 1 := f])"
proof -
  from assms(1) obtain ys y where ld: "ld = ys @ [y]"
    by (cases ld rule: rev_cases) (auto simp: batch_shape_def)
  show ?thesis using assms by (simp add: ld batch_shape_def frame_closed_def)
qed

lemma batch_shape_close:
  assumes "batch_shape ld" "frame_closed f"
  shows "batch_shape (ld[length ld - 1 := f] @ [new_frame])"
proof -
  from assms(1) obtain ys y where ld: "ld = ys @ [y]"
    by (cases ld rule: rev_cases) (auto simp: batch_shape_def)
  have "ys @ [f, new_frame] = (ys @ [f]) @ [new_frame]" by simp
  then show ?thesis using assms
    by (simp add: ld batch_shape_def frame_closed_def new_frame_def del: append_assoc append.simps)
qed

lemma batch_shape_length: "batch_shape ld \<Longrightarrow> length ld = Suc (length (filter frame_closed ld))"
proof -
  assume a: "batch_shape ld"
  then obtain ys y where ld: "ld = ys @ [y]"
    by (cases ld rule: rev_cases) (auto simp: batch_shape_def)
  have "filter frame_closed ys = ys" using a by (simp add: ld batch_shape_def filter_id_conv)
  then show ?thesis using a by (simp add: ld batch_shape_def)
qed

lemma batch_shape_last_nth: "batch_shape ld \<Longrightarrow> ld ! (length ld - Suc 0) = last ld"
  by (simp add: batch_shape_def last_conv_nth)

lemma writer_inv_Init: "writer_inv (Init initial_state)"
  by (simp add: writer_inv_def Init_def initial_state_def add_learning_data_def flushed_def)

lemma writer_inv_record:
  assumes "writer_inv s"
  shows "writer_inv (record_localization (length (learning_data s) - 1) le s)"
proof -
  let ?ld = "learning_data s"
  have b: "batch_shape ?ld" using assms by (simp add: writer_inv_def)
  have "batch_shape (?ld[length ?ld - 1 :=
      (?ld ! (length ?ld - 1))\<lparr>localization_feature := Some (localization_feature_of le)\<rparr>])"
    by (rule batch_shape_update_last [OF b]) (simp add: batch_shape_last_nth [OF b])
  then show ?thesis
    using assms by (simp add: writer_inv_def record_localization_def flushed_def)
qed

lemma writer_inv_close:
  assumes "writer_inv s" "localization_for_label s \<noteq> []"
    "close_frame cfg (length (learning_data s) - 1) s = Inr s'"
  shows "writer_inv s'"
proof -
  have nz: "FLAGS_localization_sample_interval_for_trajectory_point cfg \<noteq> 0"
    using assms(2,3) close_frame_zero by fastforce
  let ?f = "(learning_data s ! (length (learning_data s) - 1))
     \<lparr>label_trajectory_points := label_trajectory_points (learning_data s ! (length (learning_data s) - 1)) @
        map trajectory_point_of
          (stride_sample (nat \<bar>FLAGS_localization_sample_interval_for_trajectory_point cfg\<bar>)
             (localization_for_label s))\<rparr>"
  have "frame_closed ?f" using nz assms(2) by (simp add: frame_closed_def stride_sample_nonempty)
  then have "batch_shape ((learning_data s)[length (learning_data s) - 1 := ?f] @ [new_frame])"
    using assms(1) by (intro batch_shape_close) (simp_all add: writer_inv_def)
  then show ?thesis
    using assms by (auto simp: close_frame_eq [OF nz] writer_inv_def flushed_def split: if_splits)
qed

lemma writer_inv_flush: "writer_inv s \<Longrightarrow> writer_inv (flush cfg s)"
  by (simp add: writer_inv_def flush_def add_learning_data_def flushed_def WriteOutLearningData_def
      Let_def)

lemma OnLocalization_open:
  assumes "learning_data_frame s = Some p" "p < length (learning_data s)"
  shows "OnLocalization cfg le s =
    (case (if label_due cfg (record_localization p le s)
           then close_frame cfg p (record_localization p le s)
           else Inr (record_localization p le s)) of
       Inl e \<Rightarrow> Inl e
     | Inr s2 \<Rightarrow> Inr (if file_due cfg s2 then flush cfg s2 else s2))"
  using assms by (simp add: OnLocalization_def Let_def)

lemma writer_inv_pointer:
  assumes "writer_inv s"
  obtains p where "learning_data_frame s = Some p" "p < length (learning_data s)"
    "p = length (learning_data s) - 1"
  using assms by (simp add: writer_inv_def batch_shape_def)

lemma writer_inv_OnLocalization:
  assumes "writer_inv s" "OnLocalization cfg le s = Inr s'"
  shows "writer_inv s'"
proof -
  from assms(1) obtain p where p: "learning_data_frame s = Some p" "p < length (learning_data s)"
    "p = length (learning_data s) - 1" by (rule writer_inv_pointer)
  define s1 where "s1 = record_localization p le s"
  have i1: "writer_inv s1"
    unfolding s1_def p(3) by (rule writer_inv_record [OF assms(1)])
  have ne: "localization_for_label s1 \<noteq> []" by (simp add: s1_def record_localization_def)
  have len: "p = length (learning_data s1) - 1"
    by (simp add: s1_def record_localization_def p(3))
  from assms(2) obtain s2
    where s2: "(if label_due cfg s1 then close_frame cfg p s1 else Inr s1) = Inr s2"
      and s': "s' = (if file_due cfg s2 then flush cfg s2 else s2)"
    unfolding OnLocalization_open [OF p(1,2)] s1_def [symmetric]
    by (auto split: sum.splits)
  have "writer_inv s2"
  proof (cases "label_due cfg s1")
    case True
    then have "close_frame cfg (length (learning_data s1) - 1) s1 = Inr s2"
      using s2 len by simp
    then show ?thesis by (rule writer_inv_close [OF i1 ne])
  next
    case False
    then show ?thesis using s2 i1 by simp
  qed
  then show ?thesis by (simp add: s' writer_inv_flush)
qed

lemma writer_inv_OnChassis:
  assumes "writer_inv s"
  shows "\<exists>s'. OnChassis c s = Inr s' \<and> writer_inv s' \<and>
    localization_for_label s' = localization_for_label s \<and> written s' = written s \<and>
    map label_trajectory_points (learning_data s') = map label_trajectory_points (learning_data s)"
proof -
  let ?ld = "learning_data s"
  let ?f = "(?ld ! (length ?ld - 1))\<lparr>chassis_feature := Some (chassis_feature_of c)\<rparr>"
  have ne: "?ld \<noteq> []" using assms by (simp add: writer_inv_def batch_shape_def)
  have b: "batch_shape ?ld" using assms by (simp add: writer_inv_def)
  have "batch_shape (?ld[length ?ld - 1 := ?f])"
    by (rule batch_shape_update_last [OF b]) (simp add: batch_shape_last_nth [OF b])
  moreover have "map label_trajectory_points (?ld[length ?ld - 1 := ?f]) = map label_trajectory_points ?ld"
    using ne by (simp add: map_update list_update_same_conv)
  moreover have "\<not> length ?ld \<le> length ?ld - 1" using ne by (cases ?ld) simp_all
  ultimately show ?thesis
    using assms by (simp add: writer_inv_def OnChassis_def flushed_def)
qed

lemma run_invariant:
  assumes "ProcessOfflineData cfg ms s = Inr s'" "P s"
    and "\<And>s le s'. P s \<Longrightarrow> OnLocalization cfg le s = Inr s' \<Longrightarrow> P s'"
    and "\<And>s c s'. P s \<Longrightarrow> OnChassis c s = Inr s' \<Longrightarrow> P s'"
  shows "P s'"
  using assms(1,2)
proof (induction ms arbitrary: s)
  case Nil
  then show ?case by simp
next
  case (Cons m ms)
  show ?case
  proof (cases m)
    case (LocalizationMsg le)
    with Cons.prems(1) obtain s1 where s1: "OnLocalization cfg le s = Inr s1"
      and r: "ProcessOfflineData cfg ms s1 = Inr s'"
      by (auto split: sum.splits)
    have "P s1" using Cons.prems(2) s1 by (rule assms(3))
    with Cons.IH [OF r] show ?thesis .
  next
    case (ChassisMsg c)
    with Cons.prems(1) obtain s1 where s1: "OnChassis c s = Inr s1"
      and r: "ProcessOfflineData cfg ms s1 = Inr s'"
      by (auto split: sum.splits)
    have "P s1" using Cons.prems(2) s1 by (rule assms(4))
    with Cons.IH [OF r] show ?thesis .
  next
    case Skipped
    with Cons show ?thesis by simp
  qed
qed

lemma writer_inv_run:
  assumes "ProcessOfflineData cfg ms s = Inr s'" "writer_inv s"
  shows "writer_inv s'"
  using assms(1,2)
proof (rule run_invariant)
  fix s le s' assume "writer_inv s" "OnLocalization cfg le s = Inr s'"
  then show "writer_inv s'" by (rule writer_inv_OnLocalization)
next
  fix s c s' assume "writer_inv s" "OnChassis c s = Inr s'"
  then show "writer_inv s'" using writer_inv_OnChassis [of s c] by auto
qed

subsection \<open>Runs that start with \<open>Init\<close>\<close>

lemma OnLocalization_total:
  assumes "writer_inv s"
    "FLAGS_localization_sample_interval_for_trajectory_point cfg \<noteq> 0"
    "FLAGS_localization_move_window_step cfg \<le> FLAGS_learning_data_frame_label_sample_interval cfg"
  shows "\<exists>s'. OnLocalization cfg le s = Inr s'"
proof -
  from assms(1) obtain p where p: "learning_data_frame s = Some p" "p < length (learning_data s)"
    "p = length (learning_data s) - 1" by (rule writer_inv_pointer)
  show ?thesis
    using assms(3)
    by (auto simp: OnLocalization_open [OF p(1,2)] close_frame_eq [OF assms(2)] label_due_def
        record_localization_def)
qed

lemma run_total:
  assumes "writer_inv s"
    "FLAGS_localization_sample_interval_for_trajectory_point cfg \<noteq> 0"
    "FLAGS_localization_move_window_step cfg \<le> FLAGS_learning_data_frame_label_sample_interval cfg"
  shows "\<exists>s'. ProcessOfflineData cfg ms s = Inr s'"
  using assms(1)
proof (induction ms arbitrary: s)
  case Nil
  then show ?case by simp
next
  case (Cons m ms)
  show ?case
  proof (cases m)
    case (LocalizationMsg le)
    from OnLocalization_total [OF Cons.prems assms(2,3)]
    obtain s1 where s1: "OnLocalization cfg le s = Inr s1" by blast
    then have "writer_inv s1" using Cons.prems writer_inv_OnLocalization by blast
    from Cons.IH [OF this] show ?thesis by (simp add: LocalizationMsg s1)
  next
    case (ChassisMsg c)
    from writer_inv_OnChassis [OF Cons.prems, of c]
    obtain s1 where s1: "OnChassis c s = Inr s1" "writer_inv s1" by blast
    from Cons.IH [OF s1(2)] show ?thesis by (simp add: ChassisMsg s1)
  next
    case Skipped
    with Cons show ?thesis by simp
  qed
qed

lemma example_flags_simps [simp]:
  "FLAGS_planning_data_dir (example_flags t f n w b) = ''d''"
  "FLAGS_learning_data_frame_label_sample_interval (example_flags t f n w b) = t"
  "FLAGS_learning_data_frame_num_per_file (example_flags t f n w b) = f"
  "FLAGS_localization_sample_interval_for_trajectory_point (example_flags t f n w b) = n"
  "FLAGS_localization_move_window_step (example_flags t f n w b) = w"
  "FLAGS_enable_binary_learning_data (example_flags t f n w b) = b"
  by (simp_all add: example_flags_def)

lemma count_closed_files:
  assumes "\<forall>w \<in> set ws. batch_shape (content w)"
  shows "length (concat (map content ws)) =
     length (filter frame_closed (concat (map content ws))) + length ws"
  using assms
proof (induction ws)
  case Nil
  then show ?case by simp
next
  case (Cons w ws)
  then have "length (content w) = Suc (length (filter frame_closed (content w)))"
    by (simp add: batch_shape_length)
  with Cons show ?case by simp
qed

lemma Close_fields:
  "written (Close cfg s) = written s @
     [\<lparr>file_name = data_file_name cfg (learning_data_file_index s),
       binary = FLAGS_enable_binary_learning_data cfg, content = learning_data s\<rparr>]"
  "total_learning_data_frame_num (Close cfg s) =
     total_learning_data_frame_num s + int (length (learning_data s))"
  "learning_data_file_index (Close cfg s) = learning_data_file_index s + 1"
  "logged (Close cfg s) = logged s @
     [AINFO ''Total learning_data_frame number:''
        (total_learning_data_frame_num s + int (length (learning_data s)))]"
  "learning_data (Close cfg s) = learning_data s"
  "learning_data_frame (Close cfg s) = learning_data_frame s"
  "localization_for_label (Close cfg s) = localization_for_label s"
  by (simp_all add: Close_def WriteOutLearningData_def Let_def)

lemma flush_fields:
  "written (flush cfg s) = written s @
     [\<lparr>file_name = data_file_name cfg (learning_data_file_index s),
       binary = FLAGS_enable_binary_learning_data cfg, content = learning_data s\<rparr>]"
  "total_learning_data_frame_num (flush cfg s) =
     total_learning_data_frame_num s + int (length (learning_data s))"
  "learning_data_file_index (flush cfg s) = learning_data_file_index s + 1"
  "logged (flush cfg s) = logged s"
  "learning_data (flush cfg s) = [new_frame]"
  "learning_data_frame (flush cfg s) = Some 0"
  "localization_for_label (flush cfg s) = localization_for_label s"
  by (simp_all add: flush_def WriteOutLearningData_def Let_def add_learning_data_def)

subsection \<open>One call of \<open>OnLocalization\<close>\<close>

lemma OnLocalization_step:
  assumes "learning_data_frame s = Some p" "p < length (learning_data s)"
    "OnLocalization cfg le s = Inr s'"
  shows "\<exists>s2. s' = (if file_due cfg s2 then flush cfg s2 else s2) \<and>
     written s2 = written s \<and> learning_data_file_index s2 = learning_data_file_index s \<and>
     total_learning_data_frame_num s2 = total_learning_data_frame_num s \<and>
     logged s2 = logged s \<and>
     (if FLAGS_learning_data_frame_label_sample_interval cfg \<le> int (length (localization_for_label s)) + 1
      then FLAGS_localization_sample_interval_for_trajectory_point cfg \<noteq> 0 \<and>
        nat (FLAGS_localization_move_window_step cfg) \<le> length (localization_for_label s) + 1 \<and>
        learning_data s2 =
          (learning_data s)
            [p := (learning_data s ! p)
               \<lparr>localization_feature := Some (localization_feature_of le),
                label_trajectory_points := label_trajectory_points (learning_data s ! p) @
                  map trajectory_point_of
                    (stride_sample
                       (nat \<bar>FLAGS_localization_sample_interval_for_trajectory_point cfg\<bar>)
                       (localization_for_label s @ [le]))\<rparr>] @ [new_frame] \<and>
        learning_data_frame s2 = Some (length (learning_data s)) \<and>
        localization_for_label s2 =
          drop (nat (FLAGS_localization_move_window_step cfg)) (localization_for_label s @ [le])
      else
        learning_data s2 =
          (learning_data s)
            [p := (learning_data s ! p)\<lparr>localization_feature := Some (localization_feature_of le)\<rparr>] \<and>
        learning_data_frame s2 = Some p \<and>
        localization_for_label s2 = localization_for_label s @ [le])"
proof -
  define s1 where "s1 = record_localization p le s"
  have f1: "written s1 = written s" "learning_data_file_index s1 = learning_data_file_index s"
    "total_learning_data_frame_num s1 = total_learning_data_frame_num s" "logged s1 = logged s"
    "learning_data_frame s1 = Some p"
    "localization_for_label s1 = localization_for_label s @ [le]"
    "learning_data s1 = (learning_data s)
       [p := (learning_data s ! p)\<lparr>localization_feature := Some (localization_feature_of le)\<rparr>]"
    using assms(1) by (simp_all add: s1_def record_localization_def)
  have due: "label_due cfg s1 \<longleftrightarrow>
    FLAGS_learning_data_frame_label_sample_interval cfg \<le> int (length (localization_for_label s)) + 1"
    by (simp add: label_due_def f1 add.commute)
  from assms(3) obtain s2
    where s2: "(if label_due cfg s1 then close_frame cfg p s1 else Inr s1) = Inr s2"
      and s': "s' = (if file_due cfg s2 then flush cfg s2 else s2)"
    unfolding OnLocalization_open [OF assms(1,2)] s1_def [symmetric]
    by (auto split: sum.splits)
  show ?thesis
  proof (cases "label_due cfg s1")
    case False
    then have e: "s2 = s1" using s2 by simp
    have n: "\<not> FLAGS_learning_data_frame_label_sample_interval cfg
        \<le> int (length (localization_for_label s)) + 1"
      using False due by simp
    show ?thesis
      by (rule exI [of _ s1]) (use s' e n in \<open>simp add: f1\<close>)
  next
    case True
    then have c: "close_frame cfg p s1 = Inr s2" using s2 by simp
    have y: "FLAGS_learning_data_frame_label_sample_interval cfg
        \<le> int (length (localization_for_label s)) + 1"
      using True due by simp
    have nz: "FLAGS_localization_sample_interval_for_trajectory_point cfg \<noteq> 0"
    proof
      assume "FLAGS_localization_sample_interval_for_trajectory_point cfg = 0"
      then have "close_frame cfg p s1 = Inl ModuloByZero"
        by (rule close_frame_zero) (simp add: f1)
      with c show False by simp
    qed
    have w: "nat (FLAGS_localization_move_window_step cfg) \<le> length (localization_for_label s) + 1"
    proof (rule ccontr)
      assume "\<not> ?thesis"
      then have "close_frame cfg p s1 = Inl PopFrontOnEmptyList"
        by (simp add: close_frame_eq [OF nz] f1)
      with c show False by simp
    qed
    have e: "s2 = s1\<lparr>learning_data :=
                  (learning_data s1)
                    [p := (learning_data s1 ! p)
                       \<lparr>label_trajectory_points := label_trajectory_points (learning_data s1 ! p) @
                          map trajectory_point_of
                            (stride_sample
                               (nat \<bar>FLAGS_localization_sample_interval_for_trajectory_point cfg\<bar>)
                               (localization_for_label s1))\<rparr>] @ [new_frame],
                learning_data_frame := Some (length (learning_data s1)),
                localization_for_label :=
                  drop (nat (FLAGS_localization_move_window_step cfg)) (localization_for_label s1)\<rparr>"
      using c w by (simp add: close_frame_eq [OF nz] f1)
    have g: "written s2 = written s" "learning_data_file_index s2 = learning_data_file_index s"
      "total_learning_data_frame_num s2 = total_learning_data_frame_num s" "logged s2 = logged s"
      "learning_data_frame s2 = Some (length (learning_data s))"
      "localization_for_label s2 =
         drop (nat (FLAGS_localization_move_window_step cfg)) (localization_for_label s @ [le])"
      by (simp_all add: e f1)
    have h: "learning_data s2 =
          (learning_data s)
            [p := (learning_data s ! p)
               \<lparr>localization_feature := Some (localization_feature_of le),
                label_trajectory_points := label_trajectory_points (learning_data s ! p) @
                  map trajectory_point_of
                    (stride_sample
                       (nat \<bar>FLAGS_localization_sample_interval_for_trajectory_point cfg\<bar>)
                       (localization_for_label s @ [le]))\<rparr>] @ [new_frame]"
      using assms(2) by (simp add: e f1)
    show ?thesis
      by (rule exI [of _ s2]) (use s' y nz w g h in simp)
  qed
qed

lemma OnLocalization_window:
  assumes "learning_data_frame s = Some p" "p < length (learning_data s)"
    "OnLocalization cfg le s = Inr s'"
  shows "localization_for_label s' =
     (if FLAGS_learning_data_frame_label_sample_interval cfg \<le> int (length (localization_for_label s)) + 1
      then drop (nat (FLAGS_localization_move_window_step cfg)) (localization_for_label s @ [le])
      else localization_for_label s @ [le])"
proof -
  from OnLocalization_step [OF assms] obtain s2
    where a: "s' = (if file_due cfg s2 then flush cfg s2 else s2)"
      and c: "if FLAGS_learning_data_frame_label_sample_interval cfg
                  \<le> int (length (localization_for_label s)) + 1
        then localization_for_label s2 =
          drop (nat (FLAGS_localization_move_window_step cfg)) (localization_for_label s @ [le])
        else localization_for_label s2 = localization_for_label s @ [le]"
    by (fastforce split: if_splits)
  have "localization_for_label s' = localization_for_label s2"
    using a by (simp add: flush_fields)
  with c show ?thesis by (simp split: if_splits)
qed

lemma OnLocalization_batch:
  assumes "learning_data_frame s = Some p" "p < length (learning_data s)"
    "OnLocalization cfg le s = Inr s'"
  shows "\<exists>s2. s' = (if file_due cfg s2 then flush cfg s2 else s2) \<and> written s2 = written s \<and>
     total_learning_data_frame_num s2 = total_learning_data_frame_num s \<and>
     (length (learning_data s2) = length (learning_data s) \<or>
      length (learning_data s2) = length (learning_data s) + 1)"
proof -
  from OnLocalization_step [OF assms] obtain s2
    where a: "s' = (if file_due cfg s2 then flush cfg s2 else s2)" "written s2 = written s"
      "total_learning_data_frame_num s2 = total_learning_data_frame_num s"
      and c: "length (learning_data s2) = length (learning_data s) \<or>
        length (learning_data s2) = length (learning_data s) + 1"
    by (fastforce split: if_splits)
  show ?thesis
    by (rule exI [of _ s2]) (use a c in blast)
qed

lemma OnChassis_fields:
  assumes "OnChassis c s = Inr s'"
  shows "written s' = written s" "learning_data_file_index s' = learning_data_file_index s"
    "total_learning_data_frame_num s' = total_learning_data_frame_num s"
    "localization_for_label s' = localization_for_label s"
    "length (learning_data s') = length (learning_data s)"
    "learning_data_frame s' = learning_data_frame s"
  using assms by (auto simp: OnChassis_def split: option.splits if_splits)

lemma writer_inv_split:
  assumes "writer_inv s"
  obtains ys y where "learning_data s = ys @ [y]" "learning_data_frame s = Some (length ys)"
    "\<not> frame_closed y" "filter frame_closed ys = ys"
proof -
  from assms have b: "batch_shape (learning_data s)"
    and p: "learning_data_frame s = Some (length (learning_data s) - 1)"
    by (simp_all add: writer_inv_def)
  from b obtain ys y where ld: "learning_data s = ys @ [y]"
    by (cases "learning_data s" rule: rev_cases) (auto simp: batch_shape_def)
  show thesis
    using b p by (intro that [of ys y]) (simp_all add: ld batch_shape_def filter_id_conv)
qed

lemma produced_maybe_flush:
  "produced (if file_due cfg s2 then flush cfg s2 else s2) =
     flushed s2 @ learning_data s2 @ (if file_due cfg s2 then [new_frame] else [])"
  by (simp add: produced_def flushed_def flush_fields)

lemma OnChassis_closed:
  assumes "writer_inv s"
  shows "\<exists>s'. OnChassis c s = Inr s' \<and> writer_inv s' \<and>
     localization_for_label s' = localization_for_label s \<and>
     filter frame_closed (produced s') = filter frame_closed (produced s)"
proof -
  from assms obtain ys y where ld: "learning_data s = ys @ [y]"
    "learning_data_frame s = Some (length ys)" "\<not> frame_closed y"
    by (rule writer_inv_split)
  from writer_inv_OnChassis [OF assms, of c] obtain s' where s': "OnChassis c s = Inr s'"
    "writer_inv s'" "localization_for_label s' = localization_for_label s" by blast
  have "produced s' = flushed s @ ys @ [y\<lparr>chassis_feature := Some (chassis_feature_of c)\<rparr>]"
    using s'(1) ld by (auto simp: OnChassis_def produced_def flushed_def)
  then have "filter frame_closed (produced s') = filter frame_closed (produced s)"
    using ld by (simp add: produced_def frame_closed_def)
  with s' show ?thesis by blast
qed

lemma OnLocalization_no_close:
  assumes "writer_inv s"
    "\<not> FLAGS_learning_data_frame_label_sample_interval cfg \<le> int (length (localization_for_label s)) + 1"
  shows "\<exists>s'. OnLocalization cfg le s = Inr s' \<and> writer_inv s' \<and>
     localization_for_label s' = localization_for_label s @ [le] \<and>
     filter frame_closed (produced s') = filter frame_closed (produced s)"
proof -
  from assms(1) obtain ys y where ld: "learning_data s = ys @ [y]"
    "learning_data_frame s = Some (length ys)" "\<not> frame_closed y"
    by (rule writer_inv_split)
  have p: "learning_data_frame s = Some (length ys)" "length ys < length (learning_data s)"
    using ld by simp_all
  have nd: "\<not> label_due cfg (record_localization (length ys) le s)"
    using assms(2) by (simp add: label_due_def record_localization_def add.commute)
  obtain s' where st: "OnLocalization cfg le s = Inr s'"
    using nd by (simp add: OnLocalization_open [OF p])
  from OnLocalization_step [OF p st] assms(2) obtain s2
    where s2: "s' = (if file_due cfg s2 then flush cfg s2 else s2)" "written s2 = written s"
      "learning_data s2 = (learning_data s)
         [length ys := (learning_data s ! length ys)
            \<lparr>localization_feature := Some (localization_feature_of le)\<rparr>]"
    by auto
  have "produced s' = flushed s @ ys @ [y\<lparr>localization_feature := Some (localization_feature_of le)\<rparr>] @
      (if file_due cfg s2 then [new_frame] else [])"
    unfolding s2(1) produced_maybe_flush using s2(2,3) ld by (simp add: flushed_def)
  then have "filter frame_closed (produced s') = filter frame_closed (produced s)"
    using ld by (simp add: produced_def frame_closed_def new_frame_def)
  moreover have "writer_inv s'" using assms(1) st by (rule writer_inv_OnLocalization)
  moreover have "localization_for_label s' = localization_for_label s @ [le]"
    using assms(2) by (simp add: OnLocalization_window [OF p st])
  ultimately show ?thesis using st by blast
qed

lemma OnLocalization_close:
  assumes "writer_inv s"
    "FLAGS_learning_data_frame_label_sample_interval cfg \<le> int (length (localization_for_label s)) + 1"
    "FLAGS_localization_sample_interval_for_trajectory_point cfg \<noteq> 0"
    "FLAGS_localization_move_window_step cfg \<le> FLAGS_learning_data_frame_label_sample_interval cfg"
  shows "\<exists>s' f. OnLocalization cfg le s = Inr s' \<and> writer_inv s' \<and>
     filter frame_closed (produced s') = filter frame_closed (produced s) @ [f] \<and>
     label_trajectory_points f =
       map trajectory_point_of
         (stride_sample (nat \<bar>FLAGS_localization_sample_interval_for_trajectory_point cfg\<bar>)
            (localization_for_label s @ [le]))"
proof -
  from assms(1) obtain ys y where ld: "learning_data s = ys @ [y]"
    "learning_data_frame s = Some (length ys)" "\<not> frame_closed y"
    by (rule writer_inv_split)
  have p: "learning_data_frame s = Some (length ys)" "length ys < length (learning_data s)"
    using ld by simp_all
  from OnLocalization_total [OF assms(1,3,4)] obtain s' where st: "OnLocalization cfg le s = Inr s'"
    by blast
  define f where "f = y\<lparr>localization_feature := Some (localization_feature_of le),
      label_trajectory_points := label_trajectory_points y @
        map trajectory_point_of
          (stride_sample (nat \<bar>FLAGS_localization_sample_interval_for_trajectory_point cfg\<bar>)
             (localization_for_label s @ [le]))\<rparr>"
  from OnLocalization_step [OF p st] assms(2) obtain s2
    where s2: "s' = (if file_due cfg s2 then flush cfg s2 else s2)" "written s2 = written s"
      "learning_data s2 = ys @ [f] @ [new_frame]"
    by (auto simp: ld f_def)
  have ly: "label_trajectory_points y = []" using ld(3) by (simp add: frame_closed_def)
  have cf: "frame_closed f"
    using assms(3) by (simp add: f_def frame_closed_def stride_sample_nonempty)
  have "produced s' = flushed s @ ys @ [f] @ [new_frame] @
      (if file_due cfg s2 then [new_frame] else [])"
    unfolding s2(1) produced_maybe_flush using s2(2,3) by (simp add: flushed_def)
  then have "filter frame_closed (produced s') = filter frame_closed (produced s) @ [f]"
    using ld cf by (simp add: produced_def) (simp add: frame_closed_def new_frame_def)
  moreover have "writer_inv s'" using assms(1) st by (rule writer_inv_OnLocalization)
  moreover have "label_trajectory_points f =
       map trajectory_point_of
         (stride_sample (nat \<bar>FLAGS_localization_sample_interval_for_trajectory_point cfg\<bar>)
            (localization_for_label s @ [le]))"
    by (simp add: f_def ly)
  ultimately show ?thesis using st by blast
qed

subsection \<open>Invariants of the files, the batch and the window\<close>

lemma names_run:
  assumes "ProcessOfflineData cfg ms (Init initial_state) = Inr s"
  shows "writer_inv s \<and>
     map file_name (written s) = map (\<lambda>i. data_file_name cfg (int i)) [0..<length (written s)] \<and>
     (\<forall>w \<in> set (written s). binary w = FLAGS_enable_binary_learning_data cfg)"
  using assms
proof (rule run_invariant)
  show "writer_inv (Init initial_state) \<and>
     map file_name (written (Init initial_state)) =
       map (\<lambda>i. data_file_name cfg (int i)) [0..<length (written (Init initial_state))] \<and>
     (\<forall>w \<in> set (written (Init initial_state)). binary w = FLAGS_enable_binary_learning_data cfg)"
    by (simp add: writer_inv_Init) (simp add: Init_def initial_state_def add_learning_data_def)
next
  fix s le s'
  assume a: "writer_inv s \<and>
     map file_name (written s) = map (\<lambda>i. data_file_name cfg (int i)) [0..<length (written s)] \<and>
     (\<forall>w \<in> set (written s). binary w = FLAGS_enable_binary_learning_data cfg)"
    and st: "OnLocalization cfg le s = Inr s'"
  from a obtain p where p: "learning_data_frame s = Some p" "p < length (learning_data s)"
    by (blast elim: writer_inv_pointer)
  have i: "learning_data_file_index s = int (length (written s))"
    using a by (simp add: writer_inv_def)
  from OnLocalization_step [OF p st] obtain s2
    where s2: "s' = (if file_due cfg s2 then flush cfg s2 else s2)" "written s2 = written s"
      "learning_data_file_index s2 = learning_data_file_index s"
    by blast
  have "writer_inv s'" using a st writer_inv_OnLocalization by blast
  then show "writer_inv s' \<and>
     map file_name (written s') = map (\<lambda>i. data_file_name cfg (int i)) [0..<length (written s')] \<and>
     (\<forall>w \<in> set (written s'). binary w = FLAGS_enable_binary_learning_data cfg)"
    using a s2 i by (simp add: flush_fields)
next
  fix s c s'
  assume a: "writer_inv s \<and>
     map file_name (written s) = map (\<lambda>i. data_file_name cfg (int i)) [0..<length (written s)] \<and>
     (\<forall>w \<in> set (written s). binary w = FLAGS_enable_binary_learning_data cfg)"
    and st: "OnChassis c s = Inr s'"
  have "writer_inv s'" using a st writer_inv_OnChassis [of s c] by auto
  then show "writer_inv s' \<and>
     map file_name (written s') = map (\<lambda>i. data_file_name cfg (int i)) [0..<length (written s')] \<and>
     (\<forall>w \<in> set (written s'). binary w = FLAGS_enable_binary_learning_data cfg)"
    using a OnChassis_fields(1) [OF st] by simp
qed

lemma files_run:
  assumes "ProcessOfflineData cfg ms (Init initial_state) = Inr s"
    and F: "2 \<le> FLAGS_learning_data_frame_num_per_file cfg"
  shows "writer_inv s \<and>
     int (length (learning_data s)) < FLAGS_learning_data_frame_num_per_file cfg \<and>
     (\<forall>w \<in> set (written s). int (length (content w)) = FLAGS_learning_data_frame_num_per_file cfg)"
  using assms(1)
proof (rule run_invariant)
  show "writer_inv (Init initial_state) \<and>
     int (length (learning_data (Init initial_state))) < FLAGS_learning_data_frame_num_per_file cfg \<and>
     (\<forall>w \<in> set (written (Init initial_state)).
        int (length (content w)) = FLAGS_learning_data_frame_num_per_file cfg)"
    using F by (simp add: writer_inv_Init) (simp add: Init_def initial_state_def add_learning_data_def)
next
  fix s le s'
  assume a: "writer_inv s \<and>
     int (length (learning_data s)) < FLAGS_learning_data_frame_num_per_file cfg \<and>
     (\<forall>w \<in> set (written s). int (length (content w)) = FLAGS_learning_data_frame_num_per_file cfg)"
    and st: "OnLocalization cfg le s = Inr s'"
  from a obtain p where p: "learning_data_frame s = Some p" "p < length (learning_data s)"
    by (blast elim: writer_inv_pointer)
  from OnLocalization_batch [OF p st] obtain s2
    where s2: "s' = (if file_due cfg s2 then flush cfg s2 else s2)" "written s2 = written s"
      and l: "length (learning_data s2) = length (learning_data s) \<or>
        length (learning_data s2) = length (learning_data s) + 1"
    by blast
  have "writer_inv s'" using a st writer_inv_OnLocalization by blast
  moreover have "int (length (learning_data s')) < FLAGS_learning_data_frame_num_per_file cfg"
    using s2 F by (simp add: flush_fields file_due_def)
  moreover have "\<forall>w \<in> set (written s').
      int (length (content w)) = FLAGS_learning_data_frame_num_per_file cfg"
    using s2 a l by (auto simp: flush_fields file_due_def)
  ultimately show "writer_inv s' \<and>
     int (length (learning_data s')) < FLAGS_learning_data_frame_num_per_file cfg \<and>
     (\<forall>w \<in> set (written s'). int (length (content w)) = FLAGS_learning_data_frame_num_per_file cfg)"
    by blast
next
  fix s c s'
  assume a: "writer_inv s \<and>
     int (length (learning_data s)) < FLAGS_learning_data_frame_num_per_file cfg \<and>
     (\<forall>w \<in> set (written s). int (length (content w)) = FLAGS_learning_data_frame_num_per_file cfg)"
    and st: "OnChassis c s = Inr s'"
  have "writer_inv s'" using a st writer_inv_OnChassis [of s c] by auto
  then show "writer_inv s' \<and>
     int (length (learning_data s')) < FLAGS_learning_data_frame_num_per_file cfg \<and>
     (\<forall>w \<in> set (written s'). int (length (content w)) = FLAGS_learning_data_frame_num_per_file cfg)"
    using a OnChassis_fields [OF st] by simp
qed

lemma length_concat_const:
  assumes "\<forall>w \<in> set ws. int (length (content w)) = k"
  shows "int (length (concat (map content ws))) = k * int (length ws)"
  using assms by (induction ws) (simp_all add: algebra_simps)

lemma window_run:
  assumes "ProcessOfflineData cfg ms (Init initial_state) = Inr s"
    and W: "1 \<le> FLAGS_localization_move_window_step cfg"
      "FLAGS_localization_move_window_step cfg \<le> FLAGS_learning_data_frame_label_sample_interval cfg"
  shows "writer_inv s \<and>
     int (length (localization_for_label s)) < FLAGS_learning_data_frame_label_sample_interval cfg"
  using assms(1)
proof (rule run_invariant)
  show "writer_inv (Init initial_state) \<and>
     int (length (localization_for_label (Init initial_state)))
       < FLAGS_learning_data_frame_label_sample_interval cfg"
    using W by (simp add: writer_inv_Init) (simp add: Init_def initial_state_def add_learning_data_def)
next
  fix s le s'
  assume a: "writer_inv s \<and>
     int (length (localization_for_label s)) < FLAGS_learning_data_frame_label_sample_interval cfg"
    and st: "OnLocalization cfg le s = Inr s'"
  from a obtain p where p: "learning_data_frame s = Some p" "p < length (learning_data s)"
    by (blast elim: writer_inv_pointer)
  have "writer_inv s'" using a st writer_inv_OnLocalization by blast
  moreover have "int (length (localization_for_label s'))
      < FLAGS_learning_data_frame_label_sample_interval cfg"
    using a W by (auto simp: OnLocalization_window [OF p st])
  ultimately show "writer_inv s' \<and>
     int (length (localization_for_label s')) < FLAGS_learning_data_frame_label_sample_interval cfg"
    by blast
next
  fix s c s'
  assume a: "writer_inv s \<and>
     int (length (localization_for_label s)) < FLAGS_learning_data_frame_label_sample_interval cfg"
    and st: "OnChassis c s = Inr s'"
  have "writer_inv s'" using a st writer_inv_OnChassis [of s c] by auto
  then show "writer_inv s' \<and>
     int (length (localization_for_label s')) < FLAGS_learning_data_frame_label_sample_interval cfg"
    using a OnChassis_fields [OF st] by simp
qed

subsection \<open>The first window\<close>

lemma run_without_localization:
  assumes "writer_inv s" "localization_samples ms = []"
  shows "\<exists>s'. ProcessOfflineData cfg ms s = Inr s' \<and> writer_inv s' \<and>
     filter frame_closed (produced s') = filter frame_closed (produced s)"
  using assms
proof (induction ms arbitrary: s)
  case Nil
  then show ?case by simp
next
  case (Cons m ms)
  show ?case
  proof (cases m)
    case (LocalizationMsg le)
    with Cons.prems show ?thesis by simp
  next
    case (ChassisMsg c)
    from OnChassis_closed [OF Cons.prems(1), of c] obtain s1
      where s1: "OnChassis c s = Inr s1" "writer_inv s1"
        "filter frame_closed (produced s1) = filter frame_closed (produced s)"
      by blast
    from Cons.prems(2) ChassisMsg have "localization_samples ms = []" by simp
    from Cons.IH [OF s1(2) this] show ?thesis by (simp add: ChassisMsg s1)
  next
    case Skipped
    with Cons show ?thesis by simp
  qed
qed

lemma run_first_window:
  assumes "writer_inv s"
    "FLAGS_localization_sample_interval_for_trajectory_point cfg \<noteq> 0"
    "FLAGS_localization_move_window_step cfg \<le> FLAGS_learning_data_frame_label_sample_interval cfg"
    "int (length (localization_for_label s) + length (localization_samples ms)) =
       FLAGS_learning_data_frame_label_sample_interval cfg"
    "localization_samples ms \<noteq> []"
  shows "\<exists>s' f. ProcessOfflineData cfg ms s = Inr s' \<and>
     filter frame_closed (produced s') = filter frame_closed (produced s) @ [f] \<and>
     label_trajectory_points f =
       map trajectory_point_of
         (stride_sample (nat \<bar>FLAGS_localization_sample_interval_for_trajectory_point cfg\<bar>)
            (localization_for_label s @ localization_samples ms))"
  using assms(1,4,5)
proof (induction ms arbitrary: s)
  case Nil
  then show ?case by simp
next
  case (Cons m ms)
  show ?case
  proof (cases m)
    case (LocalizationMsg le)
    show ?thesis
    proof (cases "localization_samples ms = []")
      case True
      then have "FLAGS_learning_data_frame_label_sample_interval cfg
          \<le> int (length (localization_for_label s)) + 1"
        using Cons.prems(2) LocalizationMsg by simp
      from OnLocalization_close [OF Cons.prems(1) this assms(2,3), of le] obtain s1 f
        where s1: "OnLocalization cfg le s = Inr s1" "writer_inv s1"
          "filter frame_closed (produced s1) = filter frame_closed (produced s) @ [f]"
          "label_trajectory_points f =
             map trajectory_point_of
               (stride_sample (nat \<bar>FLAGS_localization_sample_interval_for_trajectory_point cfg\<bar>)
                  (localization_for_label s @ [le]))"
        by blast
      from run_without_localization [OF s1(2) True, of cfg] obtain s'
        where s': "ProcessOfflineData cfg ms s1 = Inr s'"
          "filter frame_closed (produced s') = filter frame_closed (produced s1)"
        by blast
      show ?thesis
        using s1 s' True by (intro exI [of _ s'] exI [of _ f]) (simp add: LocalizationMsg)
    next
      case False
      then have "\<not> FLAGS_learning_data_frame_label_sample_interval cfg
          \<le> int (length (localization_for_label s)) + 1"
        using Cons.prems(2) LocalizationMsg by (cases "localization_samples ms") simp_all
      from OnLocalization_no_close [OF Cons.prems(1) this, of le] obtain s1
        where s1: "OnLocalization cfg le s = Inr s1" "writer_inv s1"
          "localization_for_label s1 = localization_for_label s @ [le]"
          "filter frame_closed (produced s1) = filter frame_closed (produced s)"
        by blast
      have "int (length (localization_for_label s1) + length (localization_samples ms)) =
          FLAGS_learning_data_frame_label_sample_interval cfg"
        using Cons.prems(2) LocalizationMsg s1(3) by simp
      from Cons.IH [OF s1(2) this False] show ?thesis
        by (simp add: LocalizationMsg s1)
    qed
  next
    case (ChassisMsg c)
    from OnChassis_closed [OF Cons.prems(1), of c] obtain s1
      where s1: "OnChassis c s = Inr s1" "writer_inv s1"
        "localization_for_label s1 = localization_for_label s"
        "filter frame_closed (produced s1) = filter frame_closed (produced s)"
      by blast
    have "int (length (localization_for_label s1) + length (localization_samples ms)) =
        FLAGS_learning_data_frame_label_sample_interval cfg"
      "localization_samples ms \<noteq> []"
      using Cons.prems(2,3) ChassisMsg s1(3) by simp_all
    from Cons.IH [OF s1(2) this] show ?thesis
      by (simp add: ChassisMsg s1)
  next
    case Skipped
    with Cons show ?thesis by simp
  qed
qed

subsection \<open>The chassis snapshot of the frame that closes\<close>







subsection \<open>The norm that a trajectory point carries\<close>

lemma planar_norm:
  "tp_v (trajectory_point_of le) = euclidean_norm ((linear_velocity (pose le))\<lparr>pt_z := 0\<rparr>)"
  "tp_a (trajectory_point_of le) = euclidean_norm ((linear_acceleration (pose le))\<lparr>pt_z := 0\<rparr>)"
  by (simp_all add: trajectory_point_of_def euclidean_norm_def Let_def power2_eq_square)

subsection \<open>Evaluating a run\<close>

lemmas run_simps = OnLocalization_def OnChassis_def record_localization_def label_due_def
  file_due_def close_frame_eq flush_fields flush_def add_learning_data_def Let_def Init_def initial_state_def
  stride_sample_def stride_indices_def new_frame_def produced_def flushed_def frame_closed_def
  Close_fields WriteOutLearningData_def

section \<open>The properties\<close>

subsection \<open>The first window\<close>

text \<open>
  C1. Take a run that starts with \<open>Init\<close> on a fresh generator and ingests exactly
  \<open>T_label\<close> localization samples (chassis samples and skipped messages may come in
  between), with a stride of at least 1, a label interval of at least 1 and a window step
  that does not exceed the label interval. The run returns, exactly one of the frames it
  produced is closed, and the trajectory points of that frame are the points of the
  samples at the indices \<open>0, T_stride, 2 T_stride, \<dots>\<close> of the sequence of samples, in
  this order; there are \<open>\<lceil>T_label / T_stride\<rceil>\<close> of them.
\<close>

theorem first_window_closes_one_frame:
  assumes "1 \<le> FLAGS_localization_sample_interval_for_trajectory_point cfg"
    and "1 \<le> FLAGS_learning_data_frame_label_sample_interval cfg"
    and "FLAGS_localization_move_window_step cfg \<le> FLAGS_learning_data_frame_label_sample_interval cfg"
    and "int (length (localization_samples ms)) = FLAGS_learning_data_frame_label_sample_interval cfg"
  shows "\<exists>s f. ProcessOfflineData cfg ms (Init initial_state) = Inr s \<and>
     filter frame_closed (produced s) = [f] \<and>
     label_trajectory_points f =
       map trajectory_point_of
         (stride_sample (nat (FLAGS_localization_sample_interval_for_trajectory_point cfg))
            (localization_samples ms)) \<and>
     int (length (label_trajectory_points f)) =
       \<lceil>real_of_int (FLAGS_learning_data_frame_label_sample_interval cfg) /
        real_of_int (FLAGS_localization_sample_interval_for_trajectory_point cfg)\<rceil> \<and>
     stride_sample (nat (FLAGS_localization_sample_interval_for_trajectory_point cfg))
         (localization_samples ms) =
       map (\<lambda>k. localization_samples ms !
                  (k * nat (FLAGS_localization_sample_interval_for_trajectory_point cfg)))
         [0..<length (label_trajectory_points f)]"
proof -
  let ?n = "FLAGS_localization_sample_interval_for_trajectory_point cfg"
  let ?xs = "localization_samples ms"
  have nz: "?n \<noteq> 0" and ab: "nat \<bar>?n\<bar> = nat ?n" and pos: "0 < nat ?n" using assms(1) by simp_all
  have w0: "localization_for_label (Init initial_state) = []"
    "filter frame_closed (produced (Init initial_state)) = []"
    by (simp_all add: Init_def initial_state_def add_learning_data_def produced_def flushed_def
        frame_closed_def new_frame_def)
  have len: "int (length (localization_for_label (Init initial_state)) + length ?xs) =
      FLAGS_learning_data_frame_label_sample_interval cfg"
    using assms(4) by (simp add: w0)
  have ne: "?xs \<noteq> []" using assms(2,4) by auto
  from run_first_window [OF writer_inv_Init nz assms(3) len ne] obtain s f
    where r: "ProcessOfflineData cfg ms (Init initial_state) = Inr s"
      "filter frame_closed (produced s) = [f]"
      "label_trajectory_points f = map trajectory_point_of (stride_sample (nat ?n) ?xs)"
    by (auto simp: w0 ab)
  have l: "length (label_trajectory_points f) = (length ?xs + nat ?n - 1) div nat ?n"
    by (simp add: r(3) length_stride_sample)
  have "\<lceil>real_of_int (FLAGS_learning_data_frame_label_sample_interval cfg) / real_of_int ?n\<rceil> =
      \<lceil>real (length ?xs) / real (nat ?n)\<rceil>"
    using assms(1,4) by (simp flip: assms(4))
  also have "\<dots> = int ((length ?xs + nat ?n - 1) div nat ?n)"
    by (rule ceiling_div_nat [OF pos])
  finally have c: "int (length (label_trajectory_points f)) =
      \<lceil>real_of_int (FLAGS_learning_data_frame_label_sample_interval cfg) / real_of_int ?n\<rceil>"
    by (simp add: l)
  have i: "stride_sample (nat ?n) ?xs =
      map (\<lambda>k. ?xs ! (k * nat ?n)) [0..<length (label_trajectory_points f)]"
    by (simp add: l stride_sample_def stride_indices_def comp_def)
  show ?thesis
    using r c i by blast
qed

theorem first_window_witness:
  "\<exists>s f. ProcessOfflineData (example_flags 4 2 2 2 True)
       [LocalizationMsg (sample_at 0 0), LocalizationMsg (sample_at 1 0), ChassisMsg (chassis_at 5),
        LocalizationMsg (sample_at 2 0), LocalizationMsg (sample_at 3 0)] (Init initial_state) = Inr s \<and>
     filter frame_closed (produced s) = [f] \<and>
     label_trajectory_points f = map trajectory_point_of [sample_at 0 0, sample_at 2 0] \<and>
     int (length (label_trajectory_points f)) = \<lceil>4 / 2 :: real\<rceil>"
proof -
  define cfg where "cfg = example_flags 4 2 2 2 True"
  define ms where "ms = [LocalizationMsg (sample_at 0 0), LocalizationMsg (sample_at 1 0),
        ChassisMsg (chassis_at 5), LocalizationMsg (sample_at 2 0), LocalizationMsg (sample_at 3 0)]"
  have xs: "localization_samples ms = [sample_at 0 0, sample_at 1 0, sample_at 2 0, sample_at 3 0]"
    by (simp add: ms_def)
  have n: "FLAGS_localization_sample_interval_for_trajectory_point cfg = 2"
    and t: "FLAGS_learning_data_frame_label_sample_interval cfg = 4"
    and w: "FLAGS_localization_move_window_step cfg = 2"
    by (simp_all add: cfg_def)
  have h: "1 \<le> FLAGS_localization_sample_interval_for_trajectory_point cfg"
    "1 \<le> FLAGS_learning_data_frame_label_sample_interval cfg"
    "FLAGS_localization_move_window_step cfg \<le> FLAGS_learning_data_frame_label_sample_interval cfg"
    "int (length (localization_samples ms)) = FLAGS_learning_data_frame_label_sample_interval cfg"
    by (simp_all add: n t w xs)
  have e: "stride_sample (nat 2) (localization_samples ms) = [sample_at 0 0, sample_at 2 0]"
    by (simp add: xs stride_sample_def stride_indices_def)
  from first_window_closes_one_frame [OF h] obtain s f
    where r: "ProcessOfflineData cfg ms (Init initial_state) = Inr s"
      "filter frame_closed (produced s) = [f]"
      "label_trajectory_points f =
         map trajectory_point_of
           (stride_sample (nat (FLAGS_localization_sample_interval_for_trajectory_point cfg))
              (localization_samples ms))"
      "int (length (label_trajectory_points f)) =
         \<lceil>real_of_int (FLAGS_learning_data_frame_label_sample_interval cfg) /
          real_of_int (FLAGS_localization_sample_interval_for_trajectory_point cfg)\<rceil>"
    by blast
  have "label_trajectory_points f = map trajectory_point_of [sample_at 0 0, sample_at 2 0]"
    using r(3) unfolding n e .
  moreover have "int (length (label_trajectory_points f)) = \<lceil>4 / 2 :: real\<rceil>"
    using r(4) unfolding n t by simp
  ultimately show ?thesis
    using r(1,2) unfolding cfg_def ms_def by blast
qed

subsection \<open>The frames of a file\<close>

text \<open>
  C2, as stated, fails. With 3 frames per file and two frames closed, the first file holds
  3 frames (the two closed ones and the frame opened last) and the file that \<open>Close\<close>
  writes holds 1 frame, not \<open>2 mod 3\<close>. With 1 frame per file, \<open>Close\<close> right after
  \<open>Init\<close> writes a file of 1 frame although the total, 1, leaves the remainder 0.
\<close>

theorem files_hold_open_frame_counterexample:
  "(case ProcessOfflineData (example_flags 1 3 1 1 True)
      [LocalizationMsg (sample_at 0 0), LocalizationMsg (sample_at 1 0)] (Init initial_state) of
    Inl e \<Rightarrow> False
  | Inr s \<Rightarrow>
      map (\<lambda>w. length (content w)) (written (Close (example_flags 1 3 1 1 True) s)) = [3, 1] \<and>
      length (filter frame_closed (produced s)) = 2) \<and>
   map (\<lambda>w. length (content w)) (written (Close (example_flags 4 1 2 2 True) (Init initial_state))) = [1] \<and>
   total_learning_data_frame_num (Close (example_flags 4 1 2 2 True) (Init initial_state)) = 1"
  by (simp add: run_simps)

text \<open>
  C2, amended. In every run that starts with \<open>Init\<close>, with at least 2 frames per file:
  every file written by a flush of \<open>OnLocalization\<close> holds exactly \<open>F_max\<close> frames, the
  frame that was open included; the file that \<open>Close\<close> writes at the end is always
  written, holds the batch, has at least 1 and fewer than \<open>F_max\<close> frames, and their
  number is the reported total modulo \<open>F_max\<close>.
\<close>

theorem files_are_full_and_last_is_rest:
  assumes "ProcessOfflineData cfg ms (Init initial_state) = Inr s"
    and "2 \<le> FLAGS_learning_data_frame_num_per_file cfg"
  shows "(\<forall>w \<in> set (written s). int (length (content w)) = FLAGS_learning_data_frame_num_per_file cfg) \<and>
     butlast (written (Close cfg s)) = written s \<and>
     content (last (written (Close cfg s))) = learning_data s \<and>
     1 \<le> length (content (last (written (Close cfg s)))) \<and>
     int (length (content (last (written (Close cfg s))))) < FLAGS_learning_data_frame_num_per_file cfg \<and>
     int (length (content (last (written (Close cfg s))))) =
       total_learning_data_frame_num (Close cfg s) mod FLAGS_learning_data_frame_num_per_file cfg"
proof -
  from files_run [OF assms] have inv: "writer_inv s"
    and l: "int (length (learning_data s)) < FLAGS_learning_data_frame_num_per_file cfg"
    and w: "\<forall>w \<in> set (written s). int (length (content w)) = FLAGS_learning_data_frame_num_per_file cfg"
    by simp_all
  have ne: "1 \<le> length (learning_data s)"
    using inv by (cases "learning_data s") (simp_all add: writer_inv_def batch_shape_def)
  have t: "total_learning_data_frame_num s =
      FLAGS_learning_data_frame_num_per_file cfg * int (length (written s))"
    using inv length_concat_const [OF w] by (simp add: writer_inv_def flushed_def)
  have "(FLAGS_learning_data_frame_num_per_file cfg * int (length (written s)) +
      int (length (learning_data s))) mod FLAGS_learning_data_frame_num_per_file cfg =
      int (length (learning_data s))"
    using l by simp
  then show ?thesis
    using w l ne t by (simp add: Close_fields)
qed

theorem files_are_full_witness:
  "\<exists>s. ProcessOfflineData (example_flags 1 2 1 1 True)
          [LocalizationMsg (sample_at 0 0), LocalizationMsg (sample_at 1 0)] (Init initial_state) = Inr s \<and>
     2 \<le> FLAGS_learning_data_frame_num_per_file (example_flags 1 2 1 1 True) \<and>
     butlast (written (Close (example_flags 1 2 1 1 True) s)) = written s \<and>
     1 \<le> length (content (last (written (Close (example_flags 1 2 1 1 True) s)))) \<and>
     int (length (content (last (written (Close (example_flags 1 2 1 1 True) s))))) =
       total_learning_data_frame_num (Close (example_flags 1 2 1 1 True) s) mod
       FLAGS_learning_data_frame_num_per_file (example_flags 1 2 1 1 True)"
proof -
  have "\<exists>s. ProcessOfflineData (example_flags 1 2 1 1 True)
          [LocalizationMsg (sample_at 0 0), LocalizationMsg (sample_at 1 0)] (Init initial_state) = Inr s"
    by (rule run_total [OF writer_inv_Init]) simp_all
  then obtain s where s: "ProcessOfflineData (example_flags 1 2 1 1 True)
          [LocalizationMsg (sample_at 0 0), LocalizationMsg (sample_at 1 0)] (Init initial_state) = Inr s"
    by blast
  have F: "2 \<le> FLAGS_learning_data_frame_num_per_file (example_flags 1 2 1 1 True)" by simp
  from files_are_full_and_last_is_rest [OF s F] s F show ?thesis by blast
qed

subsection \<open>The total reported by \<open>Close\<close>\<close>

text \<open>
  C3, as stated, fails: \<open>Close\<close> right after \<open>Init\<close> reports a total of 1 although
  no frame was ever closed, and after one sample that closes one frame it reports 2,
  because the batch holds the open frame.
\<close>

theorem total_counts_open_frames_counterexample:
  "total_learning_data_frame_num (Close (example_flags 4 2 2 2 True) (Init initial_state)) = 1 \<and>
   length (filter frame_closed (produced (Init initial_state))) = 0 \<and>
   (case ProcessOfflineData (example_flags 1 3 1 1 True) [LocalizationMsg (sample_at 0 0)]
           (Init initial_state) of
      Inl e \<Rightarrow> False
    | Inr s \<Rightarrow>
        total_learning_data_frame_num (Close (example_flags 1 3 1 1 True) s) = 2 \<and>
        length (filter frame_closed (produced s)) = 1)"
  by (simp add: run_simps)

text \<open>
  C3, amended. In every run that starts with \<open>Init\<close> and ends with \<open>Close\<close>, the total
  that \<open>Close\<close> reports is the number of frames closed during the run plus the number
  of files written, the last one included: every file holds one frame that was open when
  the file was written.
\<close>

theorem reported_total_is_closed_plus_files:
  assumes "ProcessOfflineData cfg ms (Init initial_state) = Inr s"
  shows "total_learning_data_frame_num (Close cfg s) =
       int (length (filter frame_closed (produced s))) + int (length (written (Close cfg s))) \<and>
     last (logged (Close cfg s)) =
       AINFO ''Total learning_data_frame number:'' (total_learning_data_frame_num (Close cfg s))"
proof -
  have i: "writer_inv s" using assms writer_inv_Init by (rule writer_inv_run)
  then have b: "batch_shape (learning_data s)" and
    w: "\<forall>w \<in> set (written s). batch_shape (content w)" and
    t: "total_learning_data_frame_num s = int (length (flushed s))"
    by (simp_all add: writer_inv_def)
  show ?thesis
    using count_closed_files [OF w] batch_shape_length [OF b] t
    by (simp add: Close_fields produced_def flushed_def)
qed

theorem reported_total_witness:
  "\<exists>s. ProcessOfflineData (example_flags 1 3 1 1 True)
         [LocalizationMsg (sample_at 0 0), ChassisMsg (chassis_at 5)] (Init initial_state) = Inr s \<and>
       total_learning_data_frame_num (Close (example_flags 1 3 1 1 True) s) =
       int (length (filter frame_closed (produced s))) +
       int (length (written (Close (example_flags 1 3 1 1 True) s)))"
proof -
  have "\<exists>s. ProcessOfflineData (example_flags 1 3 1 1 True)
         [LocalizationMsg (sample_at 0 0), ChassisMsg (chassis_at 5)] (Init initial_state) = Inr s"
    by (rule run_total [OF writer_inv_Init]) simp_all
  then obtain s where s: "ProcessOfflineData (example_flags 1 3 1 1 True)
         [LocalizationMsg (sample_at 0 0), ChassisMsg (chassis_at 5)] (Init initial_state) = Inr s"
    by blast
  from reported_total_is_closed_plus_files [OF s] s show ?thesis by blast
qed

subsection \<open>Moving the window\<close>

text \<open>
  C4, as stated, fails. With a window step of 0 and a label interval of 1 the precondition
  holds, yet after the second sample, which closes a second frame, the window holds 2
  samples, not \<open>T_label - W_step = 1\<close>: nothing was evicted at the first close, so the
  window was longer than \<open>T_label\<close> at the second.
\<close>

theorem window_grows_without_step_counterexample:
  "FLAGS_localization_move_window_step (example_flags 1 100 1 0 True)
     \<le> FLAGS_learning_data_frame_label_sample_interval (example_flags 1 100 1 0 True) \<and>
   (case ProcessOfflineData (example_flags 1 100 1 0 True)
      [LocalizationMsg (sample_at 0 0), LocalizationMsg (sample_at 1 0)] (Init initial_state) of
    Inl e \<Rightarrow> False
  | Inr s \<Rightarrow> length (localization_for_label s) = 2 \<and>
      length (filter frame_closed (produced s)) = 2) \<and>
   FLAGS_learning_data_frame_label_sample_interval (example_flags 1 100 1 0 True) -
     FLAGS_localization_move_window_step (example_flags 1 100 1 0 True) = 1"
  by (simp add: run_simps)

text \<open>
  C4, amended. In every run that starts with \<open>Init\<close>, with \<open>1 \<le> W_step \<le> T_label\<close> and a
  stride that is not 0, the next localization sample is processed without fault; when it
  closes a frame, the window with the sample appended holds exactly \<open>T_label\<close> samples,
  exactly its first \<open>W_step\<close> samples are removed, and \<open>T_label - W_step\<close> remain; when it
  does not, the sample is appended and nothing is removed.
\<close>

theorem window_trim_on_close:
  assumes "ProcessOfflineData cfg ms (Init initial_state) = Inr s"
    and "1 \<le> FLAGS_localization_move_window_step cfg"
    and "FLAGS_localization_move_window_step cfg \<le> FLAGS_learning_data_frame_label_sample_interval cfg"
    and "FLAGS_localization_sample_interval_for_trajectory_point cfg \<noteq> 0"
  shows "\<exists>s'. OnLocalization cfg le s = Inr s' \<and>
     (if label_due cfg (s\<lparr>localization_for_label := localization_for_label s @ [le]\<rparr>)
      then int (length (localization_for_label s @ [le])) =
             FLAGS_learning_data_frame_label_sample_interval cfg \<and>
           localization_for_label s' =
             drop (nat (FLAGS_localization_move_window_step cfg)) (localization_for_label s @ [le]) \<and>
           int (length (localization_for_label s')) =
             FLAGS_learning_data_frame_label_sample_interval cfg -
             FLAGS_localization_move_window_step cfg
      else localization_for_label s' = localization_for_label s @ [le])"
proof -
  from window_run [OF assms(1-3)] have inv: "writer_inv s"
    and l: "int (length (localization_for_label s)) < FLAGS_learning_data_frame_label_sample_interval cfg"
    by simp_all
  from inv obtain p where p: "learning_data_frame s = Some p" "p < length (learning_data s)"
    by (blast elim: writer_inv_pointer)
  from OnLocalization_total [OF inv assms(4,3)] obtain s' where st: "OnLocalization cfg le s = Inr s'"
    by blast
  have due: "label_due cfg (s\<lparr>localization_for_label := localization_for_label s @ [le]\<rparr>) \<longleftrightarrow>
      FLAGS_learning_data_frame_label_sample_interval cfg \<le> int (length (localization_for_label s)) + 1"
    by (simp add: label_due_def add.commute)
  show ?thesis
    using st l assms(2,3) by (auto simp: due OnLocalization_window [OF p st])
qed

theorem window_trim_witness:
  "\<exists>s s'. ProcessOfflineData (example_flags 2 3 1 1 True) [LocalizationMsg (sample_at 0 0)]
          (Init initial_state) = Inr s \<and>
     OnLocalization (example_flags 2 3 1 1 True) (sample_at 1 0) s = Inr s' \<and>
     label_due (example_flags 2 3 1 1 True)
       (s\<lparr>localization_for_label := localization_for_label s @ [sample_at 1 0]\<rparr>) \<and>
     localization_for_label s' = drop 1 (localization_for_label s @ [sample_at 1 0]) \<and>
     int (length (localization_for_label s')) = 2 - 1"
proof -
  have "\<exists>s. ProcessOfflineData (example_flags 2 3 1 1 True) [LocalizationMsg (sample_at 0 0)]
          (Init initial_state) = Inr s"
    by (rule run_total [OF writer_inv_Init]) simp_all
  then obtain s where s: "ProcessOfflineData (example_flags 2 3 1 1 True)
      [LocalizationMsg (sample_at 0 0)] (Init initial_state) = Inr s"
    by blast
  have w: "localization_for_label s = [sample_at 0 0]"
    using s by (auto simp: run_simps)
  have d: "label_due (example_flags 2 3 1 1 True)
       (s\<lparr>localization_for_label := localization_for_label s @ [sample_at 1 0]\<rparr>)"
    by (simp add: label_due_def w)
  from window_trim_on_close [OF s, of "sample_at 1 0"] d s show ?thesis
    by auto
qed

subsection \<open>Speed and acceleration of a trajectory point\<close>

text \<open>
  C5, as stated, fails: the speed and the acceleration of a trajectory point are computed
  from the \<open>x\<close> and \<open>y\<close> components only. A sample that moves vertically at speed 1
  gets speed 0, while the Euclidean norm of its velocity vector is 1.
\<close>

theorem speed_ignores_vertical_component:
  "tp_v (trajectory_point_of (sample_at 0 1)) = 0 \<and>
   euclidean_norm (linear_velocity (pose (sample_at 0 1))) = 1 \<and>
   tp_a (trajectory_point_of (sample_at 0 1)) = 0 \<and>
   euclidean_norm (linear_acceleration (pose (sample_at 0 1))) = 1"
  by (simp add: trajectory_point_of_def sample_at_def euclidean_norm_def)

text \<open>
  C5, amended. Whenever the stride is not zero, \<open>GenerateTrajectoryLabel\<close> returns, and the
  speeds and accelerations of the points it appends are the Euclidean norms of the
  horizontal parts (\<open>z\<close> set to 0) of the linear velocity and of the linear acceleration
  of the samples it selects.
\<close>

theorem label_speed_is_planar_norm:
  assumes "FLAGS_localization_sample_interval_for_trajectory_point cfg \<noteq> 0"
  shows "\<exists>f'. GenerateTrajectoryLabel cfg les f = Inr f' \<and>
     map tp_v (label_trajectory_points f') =
       map tp_v (label_trajectory_points f) @
       map (\<lambda>le. euclidean_norm ((linear_velocity (pose le))\<lparr>pt_z := 0\<rparr>))
         (stride_sample (nat \<bar>FLAGS_localization_sample_interval_for_trajectory_point cfg\<bar>) les) \<and>
     map tp_a (label_trajectory_points f') =
       map tp_a (label_trajectory_points f) @
       map (\<lambda>le. euclidean_norm ((linear_acceleration (pose le))\<lparr>pt_z := 0\<rparr>))
         (stride_sample (nat \<bar>FLAGS_localization_sample_interval_for_trajectory_point cfg\<bar>) les)"
  by (simp add: GenerateTrajectoryLabel_eq [OF assms] planar_norm comp_def)

theorem label_speed_witness:
  "FLAGS_localization_sample_interval_for_trajectory_point (example_flags 4 2 2 2 True) \<noteq> 0 \<and>
   (\<exists>f'. GenerateTrajectoryLabel (example_flags 4 2 2 2 True) [sample_at 0 1] new_frame = Inr f' \<and>
     map tp_v (label_trajectory_points f') = [0] \<and> map tp_a (label_trajectory_points f') = [0])"
  using label_speed_is_planar_norm [of "example_flags 4 2 2 2 True" "[sample_at 0 1]" new_frame]
  by (simp add: example_flags_def stride_sample_def stride_indices_def new_frame_def sample_at_def
      euclidean_norm_def)

subsection \<open>Samples that arrive while no frame is open\<close>

text \<open>
  C6. A localization or chassis sample that arrives while \<open>learning_data_frame\<close> is
  \<^verbatim>\<open>nullptr\<close> is dropped: the call returns normally, logs an error and changes nothing
  else. The window, the batch, the file index, the total and the files written are the
  same, and no frame is opened.
\<close>

theorem no_open_frame_drops_sample:
  assumes "learning_data_frame s = None"
  shows "\<exists>s1 s2. OnLocalization cfg le s = Inr s1 \<and> OnChassis c s = Inr s2 \<and>
     s1 = s\<lparr>logged := logged s @ [AERROR ''learning_data_frame_ pointer is nullptr'']\<rparr> \<and>
     s2 = s\<lparr>logged := logged s @ [AERROR ''learning_data_frame_ pointer is nullptr'']\<rparr> \<and>
     localization_for_label s1 = localization_for_label s \<and>
     localization_for_label s2 = localization_for_label s \<and>
     learning_data s1 = learning_data s \<and> learning_data s2 = learning_data s \<and>
     learning_data_file_index s1 = learning_data_file_index s \<and>
     learning_data_file_index s2 = learning_data_file_index s \<and>
     total_learning_data_frame_num s1 = total_learning_data_frame_num s \<and>
     total_learning_data_frame_num s2 = total_learning_data_frame_num s \<and>
     written s1 = written s \<and> written s2 = written s \<and>
     learning_data_frame s1 = None \<and> learning_data_frame s2 = None"
  using assms by (simp add: OnLocalization_def OnChassis_def)

theorem no_open_frame_witness:
  "learning_data_frame initial_state = None \<and>
   OnLocalization (example_flags 4 2 2 2 True) (sample_at 0 0) initial_state =
     Inr (initial_state\<lparr>logged := [AERROR ''learning_data_frame_ pointer is nullptr'']\<rparr>) \<and>
   OnChassis (chassis_at 5) initial_state =
     Inr (initial_state\<lparr>logged := [AERROR ''learning_data_frame_ pointer is nullptr'']\<rparr>)"
  using no_open_frame_drops_sample [of initial_state "example_flags 4 2 2 2 True" "sample_at 0 0"
      "chassis_at 5"]
  by (simp add: initial_state_def)

subsection \<open>Chassis samples\<close>




subsection \<open>File names\<close>

text \<open>
  C8, as stated, fails: the suffix does not tell the serialization form. With the switch
  off the file is written in text form and still named \<open>.bin\<close>, exactly as with the
  switch on.
\<close>

theorem suffix_is_bin_for_text_counterexample:
  "written (Close (example_flags 4 2 2 2 False) (Init initial_state)) =
     [\<lparr>file_name = ''d/learning_data.0.bin'', binary = False, content = [new_frame]\<rparr>] \<and>
   written (Close (example_flags 4 2 2 2 True) (Init initial_state)) =
     [\<lparr>file_name = ''d/learning_data.0.bin'', binary = True, content = [new_frame]\<rparr>]"
  by (simp add: Close_fields Init_def initial_state_def add_learning_data_def data_file_name_def
      StrCat_int_def)

text \<open>
  C8, amended. In every run that starts with \<open>Init\<close> and ends with \<open>Close\<close>, the files
  are named, in the order they are written, by the directory prefix, \<open>/learning_data.\<close>,
  the decimal index \<open>0, 1, 2, \<dots>\<close> and the suffix \<open>.bin\<close>, whatever the switch; the switch
  selects the form of every file. The index is the number of files written so far: a call
  of \<open>OnLocalization\<close> writes no file and leaves the index, or writes exactly one file,
  named after the index, and increments the index by one, and so does \<open>Close\<close>.
\<close>

theorem file_names_follow_index:
  assumes "ProcessOfflineData cfg ms (Init initial_state) = Inr s"
  shows "map file_name (written (Close cfg s)) =
       map (\<lambda>i. FLAGS_planning_data_dir cfg @ ''/learning_data.'' @ StrCat_int (int i) @ ''.bin'')
         [0..<length (written (Close cfg s))] \<and>
     (\<forall>w \<in> set (written (Close cfg s)). binary w = FLAGS_enable_binary_learning_data cfg) \<and>
     learning_data_file_index s = int (length (written s)) \<and>
     length (written (Close cfg s)) = length (written s) + 1 \<and>
     learning_data_file_index (Close cfg s) = learning_data_file_index s + 1 \<and>
     (\<forall>le s'. OnLocalization cfg le s = Inr s' \<longrightarrow>
        (written s' = written s \<and> learning_data_file_index s' = learning_data_file_index s) \<or>
        (length (written s') = length (written s) + 1 \<and>
         take (length (written s)) (written s') = written s \<and>
         file_name (last (written s')) =
           FLAGS_planning_data_dir cfg @ ''/learning_data.'' @
           StrCat_int (learning_data_file_index s) @ ''.bin'' \<and>
         learning_data_file_index s' = learning_data_file_index s + 1))"
proof -
  from names_run [OF assms] have inv: "writer_inv s"
    and n: "map file_name (written s) = map (\<lambda>i. data_file_name cfg (int i)) [0..<length (written s)]"
    and b: "\<forall>w \<in> set (written s). binary w = FLAGS_enable_binary_learning_data cfg"
    by simp_all
  have i: "learning_data_file_index s = int (length (written s))"
    using inv by (simp add: writer_inv_def)
  have step: "(written s' = written s \<and> learning_data_file_index s' = learning_data_file_index s) \<or>
        (length (written s') = length (written s) + 1 \<and>
         take (length (written s)) (written s') = written s \<and>
         file_name (last (written s')) =
           FLAGS_planning_data_dir cfg @ ''/learning_data.'' @
           StrCat_int (learning_data_file_index s) @ ''.bin'' \<and>
         learning_data_file_index s' = learning_data_file_index s + 1)"
    if st: "OnLocalization cfg le s = Inr s'" for le s'
  proof -
    from inv obtain p where p: "learning_data_frame s = Some p" "p < length (learning_data s)"
      by (blast elim: writer_inv_pointer)
    from OnLocalization_step [OF p st] obtain s2
      where s2: "s' = (if file_due cfg s2 then flush cfg s2 else s2)" "written s2 = written s"
        "learning_data_file_index s2 = learning_data_file_index s"
      by blast
    then show ?thesis by (simp add: flush_fields data_file_name_def)
  qed
  have main: "map file_name (written (Close cfg s)) =
       map (\<lambda>i. FLAGS_planning_data_dir cfg @ ''/learning_data.'' @ StrCat_int (int i) @ ''.bin'')
         [0..<length (written (Close cfg s))]"
    using n i by (simp add: Close_fields data_file_name_def)
  show ?thesis
    using main b i step by (simp add: Close_fields)
qed

theorem file_names_witness:
  "\<exists>s. ProcessOfflineData (example_flags 1 2 1 1 False)
          [LocalizationMsg (sample_at 0 0), LocalizationMsg (sample_at 1 0)] (Init initial_state) = Inr s \<and>
     map file_name (written (Close (example_flags 1 2 1 1 False) s)) =
       map (\<lambda>i. ''d/learning_data.'' @ StrCat_int (int i) @ ''.bin'')
         [0..<length (written (Close (example_flags 1 2 1 1 False) s))] \<and>
     learning_data_file_index (Close (example_flags 1 2 1 1 False) s) =
       int (length (written (Close (example_flags 1 2 1 1 False) s)))"
proof -
  have "\<exists>s. ProcessOfflineData (example_flags 1 2 1 1 False)
          [LocalizationMsg (sample_at 0 0), LocalizationMsg (sample_at 1 0)] (Init initial_state) = Inr s"
    by (rule run_total [OF writer_inv_Init]) simp_all
  then obtain s where s: "ProcessOfflineData (example_flags 1 2 1 1 False)
          [LocalizationMsg (sample_at 0 0), LocalizationMsg (sample_at 1 0)] (Init initial_state) = Inr s"
    by blast
  from file_names_follow_index [OF s]
  have "map file_name (written (Close (example_flags 1 2 1 1 False) s)) =
       map (\<lambda>i. ''d/learning_data.'' @ StrCat_int (int i) @ ''.bin'')
         [0..<length (written (Close (example_flags 1 2 1 1 False) s))] \<and>
     learning_data_file_index (Close (example_flags 1 2 1 1 False) s) =
       int (length (written (Close (example_flags 1 2 1 1 False) s)))"
    by simp
  with s show ?thesis by blast
qed

subsection \<open>Finalizing\<close>

text \<open>
  C9, as stated, fails in its last part: \<open>Close\<close> has no test for an empty batch. On a
  generator that holds no frame it writes a file of 0 frames and increments the index.
\<close>

theorem finalize_writes_empty_batch:
  "learning_data initial_state = [] \<and>
   written (Close (example_flags 4 2 2 2 True) initial_state) =
     [\<lparr>file_name = ''d/learning_data.0.bin'', binary = True, content = []\<rparr>] \<and>
   learning_data_file_index (Close (example_flags 4 2 2 2 True) initial_state) = 1"
  by (simp add: Close_fields initial_state_def data_file_name_def StrCat_int_def)

text \<open>
  C9, amended. \<open>Close\<close> always writes the whole batch, whatever its length, to the file
  named after the current index, adds the length of the batch to the total, increments
  the index and logs the total. The file, the total and the index are those a flush of
  \<open>OnLocalization\<close> would have produced; unlike that flush, \<open>Close\<close> leaves the batch,
  the frame pointer and the window as they are.
\<close>

theorem finalize_always_flushes:
  "written (Close cfg s) = written s @
     [\<lparr>file_name = data_file_name cfg (learning_data_file_index s),
       binary = FLAGS_enable_binary_learning_data cfg, content = learning_data s\<rparr>] \<and>
   total_learning_data_frame_num (Close cfg s) =
     total_learning_data_frame_num s + int (length (learning_data s)) \<and>
   learning_data_file_index (Close cfg s) = learning_data_file_index s + 1 \<and>
   logged (Close cfg s) = logged s @
     [AINFO ''Total learning_data_frame number:'' (total_learning_data_frame_num (Close cfg s))] \<and>
   written (Close cfg s) = written (flush cfg s) \<and>
   total_learning_data_frame_num (Close cfg s) = total_learning_data_frame_num (flush cfg s) \<and>
   learning_data_file_index (Close cfg s) = learning_data_file_index (flush cfg s) \<and>
   learning_data (Close cfg s) = learning_data s \<and>
   learning_data_frame (Close cfg s) = learning_data_frame s \<and>
   localization_for_label (Close cfg s) = localization_for_label s"
  by (simp add: Close_fields flush_fields)

subsection \<open>The open frame and the batch\<close>

text \<open>
  C10. In every run that starts with \<open>Init\<close>, after every message the batch is not
  empty, the frame pointer is the position of its last element, that last frame is not
  closed and all frames before it are: the length of the batch is the number of its
  closed frames plus one. Every file written has the same shape, so the length the
  flush test counted was the number of closed frames plus one as well.
\<close>

theorem open_frame_is_last_of_batch:
  assumes "ProcessOfflineData cfg ms (Init initial_state) = Inr s"
  shows "learning_data s \<noteq> [] \<and>
     learning_data_frame s = Some (length (learning_data s) - 1) \<and>
     \<not> frame_closed (last (learning_data s)) \<and>
     (\<forall>f \<in> set (butlast (learning_data s)). frame_closed f) \<and>
     length (learning_data s) = length (filter frame_closed (learning_data s)) + 1 \<and>
     (\<forall>w \<in> set (written s).
        length (content w) = length (filter frame_closed (content w)) + 1)"
proof -
  have i: "writer_inv s" using assms writer_inv_Init by (rule writer_inv_run)
  then have b: "batch_shape (learning_data s)" and
    w: "\<forall>w \<in> set (written s). batch_shape (content w)"
    by (simp_all add: writer_inv_def)
  show ?thesis
    using i b w batch_shape_length [OF b] batch_shape_length
    by (simp add: writer_inv_def batch_shape_def)
qed

theorem open_frame_is_last_witness:
  "\<exists>s. ProcessOfflineData (example_flags 1 3 1 1 True)
         [LocalizationMsg (sample_at 0 0), ChassisMsg (chassis_at 5)] (Init initial_state) = Inr s \<and>
       learning_data s \<noteq> [] \<and>
       learning_data_frame s = Some (length (learning_data s) - 1) \<and>
       length (learning_data s) = length (filter frame_closed (learning_data s)) + 1"
proof -
  have "\<exists>s. ProcessOfflineData (example_flags 1 3 1 1 True)
         [LocalizationMsg (sample_at 0 0), ChassisMsg (chassis_at 5)] (Init initial_state) = Inr s"
    by (rule run_total [OF writer_inv_Init]) simp_all
  then obtain s where s: "ProcessOfflineData (example_flags 1 3 1 1 True)
         [LocalizationMsg (sample_at 0 0), ChassisMsg (chassis_at 5)] (Init initial_state) = Inr s"
    by blast
  from open_frame_is_last_of_batch [OF s] s show ?thesis by blast
qed

end
